theory Spec2Isabelle
  imports
    Complex_Main
    "HOL-Library.Product_Lexorder"
    "HOL-Library.List_Lexorder"
    "HOL-Library.Char_ord"
    "HOL-Library.AList"
    "HOL-Library.Multiset"
begin

section \<open>Conventions of the embedding\<close>

text \<open>
  The prediction engine is Python. Its \<open>int\<close> values are unbounded and become \<open>int\<close>;
  its \<open>float\<close> values become \<open>real\<close>, so every arithmetic step below is exact and the
  only rounding is the explicit \<open>round(x, 2)\<close> of the source. Outcome letters, double-chance
  picks and verdicts are the strings the source passes around (\<open>ResultadoEnum.LOCAL.value\<close>
  is \<open>"L"\<close>, and so on). An exception of the source is a value \<open>Inl e\<close> of a sum type.
\<close>

datatype error =
    KeyError string
  | ValueError
  | ValidationError
  | ZeroDivisionError

subsection \<open>config.py\<close>

abbreviation LOCAL :: string where "LOCAL \<equiv> ''L''"
abbreviation EMPATE :: string where "EMPATE \<equiv> ''E''"
abbreviation VISITA :: string where "VISITA \<equiv> ''V''"

abbreviation LOCAL_EMPATE :: string where "LOCAL_EMPATE \<equiv> ''1X''"
abbreviation EMPATE_VISITA :: string where "EMPATE_VISITA \<equiv> ''X2''"
abbreviation LOCAL_VISITA :: string where "LOCAL_VISITA \<equiv> ''12''"

abbreviation SI :: string where "SI \<equiv> ''SI''"
abbreviation NO :: string where "NO \<equiv> ''NO''"

abbreviation GANA :: string where "GANA \<equiv> ''GANA''"
abbreviation PIERDE :: string where "PIERDE \<equiv> ''PIERDE''"

definition PROB_LOCAL_MIN :: real where "PROB_LOCAL_MIN = 43"
definition PROB_LOCAL_MAX :: real where "PROB_LOCAL_MAX = 695 / 10"
definition PROB_EMPATE_MAX :: real where "PROB_EMPATE_MAX = 20"
definition DIFERENCIA_EMPATE :: real where "DIFERENCIA_EMPATE = 10"
definition SUMA_PROB_MIN :: real where "SUMA_PROB_MIN = 116"
definition UMBRAL_AMBOS_MARCAN :: real where "UMBRAL_AMBOS_MARCAN = 45"
definition PESO_FORMA_RECIENTE :: real where "PESO_FORMA_RECIENTE = 3 / 10"

definition PUNTOS_VICTORIA :: int where "PUNTOS_VICTORIA = 3"
definition PUNTOS_EMPATE :: int where "PUNTOS_EMPATE = 1"
definition PUNTOS_DERROTA :: int where "PUNTOS_DERROTA = 0"
definition MIN_PARTIDOS_CONFIABLE :: int where "MIN_PARTIDOS_CONFIABLE = 5"

definition DEFECTO_prob_local :: real where "DEFECTO_prob_local = 44"
definition DEFECTO_prob_empate :: real where "DEFECTO_prob_empate = 28"
definition DEFECTO_prob_visita :: real where "DEFECTO_prob_visita = 28"

subsection \<open>models.py: Probabilidades\<close>

record Probabilidades =
  porcentaje_local :: real
  porcentaje_empate :: real
  porcentaje_visita :: real

definition suma :: "Probabilidades \<Rightarrow> real" where
  "suma p = porcentaje_local p + porcentaje_empate p + porcentaje_visita p"

text \<open>
  The constructor \<open>Probabilidades(...)\<close> validates each field against \<open>ge=0, le=100\<close>
  and raises a validation error otherwise.
\<close>

definition crear_Probabilidades :: "real \<Rightarrow> real \<Rightarrow> real \<Rightarrow> error + Probabilidades" where
  "crear_Probabilidades l e v =
     (if 0 \<le> l \<and> l \<le> 100 \<and> 0 \<le> e \<and> e \<le> 100 \<and> 0 \<le> v \<and> v \<le> 100
      then Inr \<lparr>porcentaje_local = l, porcentaje_empate = e, porcentaje_visita = v\<rparr>
      else Inl ValidationError)"


subsection \<open>Rounding\<close>

text \<open>
  Python's \<open>round(x, 2)\<close> rounds to the nearest multiple of 0.01 and, exactly half way
  between two of them, to the one whose last digit is even.
\<close>

definition redondear_entero :: "real \<Rightarrow> int" where
  "redondear_entero y =
     (let f = \<lfloor>y\<rfloor>; d = y - of_int f
      in if d < 1 / 2 then f
         else if d > 1 / 2 then f + 1
         else if even f then f else f + 1)"

definition round2 :: "real \<Rightarrow> real" where
  "round2 x = of_int (redondear_entero (x * 100)) / 100"

subsection \<open>models.py: EstadisticasEquipo and Equipo\<close>

record EstadisticasEquipo =
  partidos_jugados :: int
  victorias :: int
  empates :: int
  derrotas :: int
  goles_favor :: int
  goles_contra :: int
  diferencia_goles :: int
  puntos :: int
  pj_local :: int
  v_local :: int
  e_local :: int
  d_local :: int
  gf_local :: int
  gc_local :: int
  pts_local :: int
  pj_visita :: int
  v_visita :: int
  e_visita :: int
  d_visita :: int
  gf_visita :: int
  gc_visita :: int
  pts_visita :: int
  rendimiento_general :: real
  rendimiento_local :: real
  rendimiento_visita :: real
  promedio_gf :: real
  promedio_gc :: real

text \<open>\<open>EstadisticasEquipo()\<close> with every field at its default.\<close>

definition stats_por_defecto :: EstadisticasEquipo where
  "stats_por_defecto =
     \<lparr>partidos_jugados = 0, victorias = 0, empates = 0, derrotas = 0,
      goles_favor = 0, goles_contra = 0, diferencia_goles = 0, puntos = 0,
      pj_local = 0, v_local = 0, e_local = 0, d_local = 0,
      gf_local = 0, gc_local = 0, pts_local = 0,
      pj_visita = 0, v_visita = 0, e_visita = 0, d_visita = 0,
      gf_visita = 0, gc_visita = 0, pts_visita = 0,
      rendimiento_general = 0, rendimiento_local = 0, rendimiento_visita = 0,
      promedio_gf = 0, promedio_gc = 0\<rparr>"

datatype TipoTiempo = COMPLETO | PRIMER_TIEMPO | SEGUNDO_TIEMPO

record Equipo =
  nombre :: string
  liga_id :: string
  temporada :: int
  season_id :: "string option"
  stats_completo :: EstadisticasEquipo
  stats_primer_tiempo :: EstadisticasEquipo
  stats_segundo_tiempo :: EstadisticasEquipo

fun obtener_stats :: "Equipo \<Rightarrow> TipoTiempo \<Rightarrow> EstadisticasEquipo" where
  "obtener_stats equipo COMPLETO = stats_completo equipo"
| "obtener_stats equipo PRIMER_TIEMPO = stats_primer_tiempo equipo"
| "obtener_stats equipo SEGUNDO_TIEMPO = stats_segundo_tiempo equipo"

section \<open>prediction_engine.py: probabilities\<close>

definition calcular_probabilidades ::
    "EstadisticasEquipo \<Rightarrow> EstadisticasEquipo \<Rightarrow> error + Probabilidades" where
  "calcular_probabilidades stats_local stats_visitante =
     (let rend_local =
            (if pj_local stats_local < MIN_PARTIDOS_CONFIABLE then DEFECTO_prob_local
             else rendimiento_local stats_local);
          rend_visita =
            (if pj_visita stats_visitante < MIN_PARTIDOS_CONFIABLE then DEFECTO_prob_visita
             else rendimiento_visita stats_visitante);
          total = rend_local + rend_visita
      in
        if total = 0
        then crear_Probabilidades DEFECTO_prob_local DEFECTO_prob_empate DEFECTO_prob_visita
        else
          (let prob_local_base = (rend_local / total) * 100;
               prob_visita_base = (rend_visita / total) * 100;
               diferencia = \<bar>prob_local_base - prob_visita_base\<bar>;
               factor_empate = max 0 (30 - diferencia);
               prob_empate = factor_empate;
               resto = 100 - factor_empate;
               prob_local = prob_local_base * resto / 100;
               prob_visita = prob_visita_base * resto / 100;
               suma' = prob_local + prob_empate + prob_visita
           in
             if suma' = 0 then Inl ZeroDivisionError
             else crear_Probabilidades
                    (round2 (prob_local / suma' * 100))
                    (round2 (prob_empate / suma' * 100))
                    (round2 (prob_visita / suma' * 100))))"

text \<open>
  The recent-form dictionary is read only through \<open>get('rendimiento', 50.0)\<close>: the entry
  is present or not.
\<close>

record FormaReciente =
  forma_rendimiento :: "real option"

definition ajustar_por_forma_reciente ::
    "Probabilidades \<Rightarrow> FormaReciente \<Rightarrow> FormaReciente \<Rightarrow> error + Probabilidades" where
  "ajustar_por_forma_reciente probabilidades forma_local forma_visitante =
     (let peso = PESO_FORMA_RECIENTE;
          rend_forma_local = (case forma_rendimiento forma_local of None \<Rightarrow> 50 | Some r \<Rightarrow> r);
          rend_forma_visitante =
            (case forma_rendimiento forma_visitante of None \<Rightarrow> 50 | Some r \<Rightarrow> r);
          factor_l = (rend_forma_local - 50) / 50;
          factor_v = (rend_forma_visitante - 50) / 50;
          p_local = porcentaje_local probabilidades;
          p_visita = porcentaje_visita probabilidades;
          ajuste_local = factor_l * peso * 10;
          ajuste_visitante = factor_v * peso * 10;
          p_local_ajustado = max 5 (min 90 (p_local + ajuste_local));
          p_visita_ajustado = max 5 (min 90 (p_visita + ajuste_visitante));
          p_empate_ajustado = max 5 (min 50 (100 - p_local_ajustado - p_visita_ajustado));
          total = p_local_ajustado + p_empate_ajustado + p_visita_ajustado
      in
        if total = 0 then Inl ZeroDivisionError
        else crear_Probabilidades
               (round2 (p_local_ajustado / total * 100))
               (round2 (p_empate_ajustado / total * 100))
               (round2 (p_visita_ajustado / total * 100)))"

text \<open>
  The historical-factor dictionary: an optional head-to-head entry and the two season
  factors, each read with a default.
\<close>

record H2H =
  tiene_historial :: bool
  total_partidos :: "int option"
  porcentaje_eq1 :: "real option"
  porcentaje_eq2 :: "real option"
  porcentaje_h2h_empate :: "real option"

record FactoresHistoricos =
  h2h :: "H2H option"
  historico_factor_local :: "real option"
  historico_factor_visita :: "real option"

definition obtener :: "'a option \<Rightarrow> 'a \<Rightarrow> 'a" where
  "obtener entrada por_defecto = (case entrada of None \<Rightarrow> por_defecto | Some x \<Rightarrow> x)"

text \<open>
  The block \<open>if h2h.get("tiene_historial") and h2h.get("total_partidos", 0) >= 3\<close> of
  \<open>_ajustar_por_historico\<close>, on the triple (local, empate, visita): the head-to-head
  shares are blended in at a weight of 0.20.
\<close>

definition mezclar_h2h :: "H2H option \<Rightarrow> real \<times> real \<times> real \<Rightarrow> real \<times> real \<times> real" where
  "mezclar_h2h entrada ps =
     (case ps of (p_local, p_empate, p_visita) \<Rightarrow>
        (case entrada of
           None \<Rightarrow> ps
         | Some h \<Rightarrow>
             if tiene_historial h \<and> obtener (total_partidos h) 0 \<ge> 3
             then
               (let pct_eq1 = obtener (porcentaje_eq1 h) 33;
                    pct_eq2 = obtener (porcentaje_eq2 h) 33;
                    pct_e = obtener (porcentaje_h2h_empate h) 33;
                    peso_h2h = 20 / 100
                in (p_local * (1 - peso_h2h) + pct_eq1 * peso_h2h,
                    p_empate * (1 - peso_h2h) + pct_e * peso_h2h,
                    p_visita * (1 - peso_h2h) + pct_eq2 * peso_h2h))
             else ps))"

definition ajustar_por_historico ::
    "Probabilidades \<Rightarrow> FactoresHistoricos \<Rightarrow> error + Probabilidades" where
  "ajustar_por_historico probabilidades factores_historicos =
     (case mezclar_h2h (h2h factores_historicos)
             (porcentaje_local probabilidades,
              porcentaje_empate probabilidades,
              porcentaje_visita probabilidades) of
        (p_local0, p_empate, p_visita0) \<Rightarrow>
          (let factor_l = obtener (historico_factor_local factores_historicos) 1;
               factor_v = obtener (historico_factor_visita factores_historicos) 1;
               p_local = p_local0 * factor_l;
               p_visita = p_visita0 * factor_v;
               total = p_local + p_empate + p_visita
           in
             if total = 0 then Inl ZeroDivisionError
             else crear_Probabilidades
                    (round2 (p_local / total * 100))
                    (round2 (p_empate / total * 100))
                    (round2 (p_visita / total * 100))))"

section \<open>prediction_engine.py: the decision rule\<close>

definition aplicar_algoritmo_decision :: "Probabilidades \<Rightarrow> int \<Rightarrow> int \<Rightarrow> string" where
  "aplicar_algoritmo_decision probabilidades factor_local factor_visita =
     (let p_local = porcentaje_local probabilidades;
          p_empate = porcentaje_empate probabilidades;
          p_visita = porcentaje_visita probabilidades;
          ajuste_local = (factor_local - 3) * 2;
          ajuste_visita = (factor_visita - 3) * 2;
          p_local_ajustado = p_local + of_int ajuste_local;
          p_visita_ajustado = p_visita + of_int ajuste_visita
      in
        if PROB_LOCAL_MIN < p_local_ajustado \<and> p_local_ajustado < PROB_LOCAL_MAX
           \<and> p_empate < PROB_EMPATE_MAX
        then LOCAL
        else if p_local_ajustado \<ge> PROB_LOCAL_MAX
        then LOCAL
        else if p_local_ajustado < PROB_LOCAL_MIN \<and> p_visita_ajustado > p_local_ajustado
        then VISITA
        else if p_empate \<ge> PROB_EMPATE_MAX
                \<and> \<bar>p_local_ajustado - p_visita_ajustado\<bar> < DIFERENCIA_EMPATE
        then EMPATE
        else if p_local_ajustado \<ge> p_visita_ajustado \<and> p_local_ajustado \<ge> p_empate
        then LOCAL
        else if p_visita_ajustado \<ge> p_local_ajustado \<and> p_visita_ajustado \<ge> p_empate
        then VISITA
        else EMPATE)"

text \<open>
  The rule as the specification words it: an ordered list of guarded outcomes of which the
  first whose guard holds is returned, and a default that picks the largest of three
  labelled values, an earlier label winning a tie.
\<close>

fun primera_regla :: "(bool \<times> string) list \<Rightarrow> string \<Rightarrow> string" where
  "primera_regla [] por_defecto = por_defecto"
| "primera_regla ((condicion, resultado) # reglas) por_defecto =
     (if condicion then resultado else primera_regla reglas por_defecto)"

fun mayor_en_orden :: "string \<times> real \<Rightarrow> (string \<times> real) list \<Rightarrow> string" where
  "mayor_en_orden (r, v) [] = r"
| "mayor_en_orden (r, v) ((r', v') # resto) =
     (if v' > v then mayor_en_orden (r', v') resto else mayor_en_orden (r, v) resto)"

definition regla_decision_spec :: "Probabilidades \<Rightarrow> int \<Rightarrow> int \<Rightarrow> string" where
  "regla_decision_spec p f_home f_away =
     (let home = porcentaje_local p + of_int ((f_home - 3) * 2);
          away = porcentaje_visita p + of_int ((f_away - 3) * 2);
          draw = porcentaje_empate p
      in primera_regla
           [(43 < home \<and> home < 695 / 10 \<and> draw < 20, ''L''),
            (home \<ge> 695 / 10, ''L''),
            (home < 43 \<and> away > home, ''V''),
            (draw \<ge> 20 \<and> \<bar>home - away\<bar> < 10, ''E'')]
           (mayor_en_orden (''L'', home) [(''V'', away), (''E'', draw)]))"

section \<open>prediction_engine.py: double chance\<close>

definition generar_doble_oportunidad :: "string \<Rightarrow> Probabilidades \<Rightarrow> string" where
  "generar_doble_oportunidad pronostico probabilidades =
     (let p_local = porcentaje_local probabilidades;
          p_visita = porcentaje_visita probabilidades;
          suma_sin_empate = p_local + p_visita
      in
        if suma_sin_empate > SUMA_PROB_MIN then LOCAL_VISITA
        else if pronostico = LOCAL then LOCAL_EMPATE
        else if pronostico = VISITA then EMPATE_VISITA
        else if p_local > p_visita then LOCAL_EMPATE
        else EMPATE_VISITA)"

section \<open>validation.py\<close>

record ValidacionTiempo =
  resultado_doble_oportunidad :: string
  resultado_ambos_marcan :: string
  pronostico_original :: string
  resultado_real :: string
  acierto_principal :: bool


text \<open>The dictionary \<open>cobertura\<close>, read with \<open>cobertura.get(doble_oportunidad, [])\<close>.\<close>

definition cobertura :: "string \<Rightarrow> string list" where
  "cobertura doble_oportunidad =
     (if doble_oportunidad = LOCAL_EMPATE then [LOCAL, EMPATE]
      else if doble_oportunidad = EMPATE_VISITA then [EMPATE, VISITA]
      else if doble_oportunidad = LOCAL_VISITA then [LOCAL, VISITA]
      else [])"

definition validar_doble_oportunidad :: "string \<Rightarrow> string \<Rightarrow> string" where
  "validar_doble_oportunidad doble_oportunidad resultado_real' =
     (if resultado_real' \<in> set (cobertura doble_oportunidad) then GANA else PIERDE)"


text \<open>
  A period forecast and a forecast as stored. The over/under table, the expected goals
  and the form snapshots are carried along by the source without being read by
  validation, and are left out.
\<close>

record PronosticoTiempo =
  pronostico :: string
  doble_oportunidad :: string
  ambos_marcan :: string
  probabilidades :: Probabilidades
  confianza :: real
  factor_local :: int
  factor_visita :: int

record Pronostico =
  pronostico_ident :: string
  pronostico_partido_id :: "string option"
  pronostico_equipo_local :: string
  pronostico_equipo_visitante :: string
  pronostico_liga_id :: string
  pronostico_season_id :: "string option"
  tiempo_completo :: PronosticoTiempo
  primer_tiempo :: PronosticoTiempo
  segundo_tiempo :: PronosticoTiempo

record Validacion =
  pronostico_id :: string
  validacion_partido_id :: "string option"
  gol_local_tc :: int
  gol_visita_tc :: int
  gol_local_1mt :: int
  gol_visita_1mt :: int
  validacion_tc :: ValidacionTiempo
  validacion_1mt :: "ValidacionTiempo option"
  validacion_2mt :: "ValidacionTiempo option"
  fecha_validacion :: int


text \<open>
  A probability triple as every step of the engine hands it on: no component negative,
  the three adding up to 100 within the rounding tolerance of 0.05.
\<close>

definition tolerancia :: real where "tolerancia = 5 / 100"

definition suma_cien :: "Probabilidades \<Rightarrow> bool" where
  "suma_cien p = (\<bar>suma p - 100\<bar> \<le> tolerancia)"

definition probabilidades_validas :: "Probabilidades \<Rightarrow> bool" where
  "probabilidades_validas p =
     (0 \<le> porcentaje_local p \<and> 0 \<le> porcentaje_empate p \<and> 0 \<le> porcentaje_visita p
      \<and> suma_cien p)"


section \<open>stats_builder.py\<close>

text \<open>
  A match record is a dictionary. The team names are read with \<open>partido['equipo_local']\<close>,
  which raises when the key is missing; the goals with \<open>partido.get(..., 0)\<close>.
\<close>

record Partido =
  equipo_local :: "string option"
  equipo_visitante :: "string option"
  goles_local_TR :: "int option"
  goles_visitante_TR :: "int option"
  goles_local_1MT :: "int option"
  goles_visitante_1MT :: "int option"

text \<open>
  Statements that mutate an object run in sequence; the first one that raises ends the
  sequence, and the exception is what the caller sees.
\<close>

definition luego :: "error + 'a \<Rightarrow> ('a \<Rightarrow> error + 'b) \<Rightarrow> error + 'b" where
  "luego m f = (case m of Inl err \<Rightarrow> Inl err | Inr x \<Rightarrow> f x)"

fun secuencia :: "('s \<Rightarrow> error + 's) list \<Rightarrow> 's \<Rightarrow> error + 's" where
  "secuencia [] s = Inr s"
| "secuencia (sentencia # resto) s = luego (sentencia s) (secuencia resto)"

text \<open>
  The models are declared with \<open>validate_assignment=True\<close>: \<open>obj.campo += delta\<close> on an
  integer field declared \<open>ge=0\<close> raises when the new value is negative. A field without a
  constraint (\<open>diferencia_goles\<close>) is assigned as it is; a float field declared
  \<open>ge=0, le=100\<close> or \<open>ge=0\<close> is checked against its bounds.
\<close>

definition sumar ::
    "('s \<Rightarrow> int) \<Rightarrow> ((int \<Rightarrow> int) \<Rightarrow> 's \<Rightarrow> 's) \<Rightarrow> int \<Rightarrow> 's \<Rightarrow> error + 's" where
  "sumar campo campo_update delta s =
     (if 0 \<le> campo s + delta then Inr (campo_update (\<lambda>x. x + delta) s)
      else Inl ValidationError)"

definition sin_validar :: "('s \<Rightarrow> 's) \<Rightarrow> 's \<Rightarrow> error + 's" where
  "sin_validar cambio s = Inr (cambio s)"

definition asignar_porcentaje ::
    "((real \<Rightarrow> real) \<Rightarrow> 's \<Rightarrow> 's) \<Rightarrow> ('s \<Rightarrow> real) \<Rightarrow> 's \<Rightarrow> error + 's" where
  "asignar_porcentaje campo_update valor s =
     (if 0 \<le> valor s \<and> valor s \<le> 100 then Inr (campo_update (\<lambda>_. valor s) s)
      else Inl ValidationError)"

definition asignar_no_negativo ::
    "((real \<Rightarrow> real) \<Rightarrow> 's \<Rightarrow> 's) \<Rightarrow> ('s \<Rightarrow> real) \<Rightarrow> 's \<Rightarrow> error + 's" where
  "asignar_no_negativo campo_update valor s =
     (if 0 \<le> valor s then Inr (campo_update (\<lambda>_. valor s) s)
      else Inl ValidationError)"

definition si :: "('s \<Rightarrow> bool) \<Rightarrow> ('s \<Rightarrow> error + 's) list \<Rightarrow> 's \<Rightarrow> error + 's" where
  "si condicion cuerpo s = (if condicion s then secuencia cuerpo s else Inr s)"

subsection \<open>models.py: calcular_derivados and the Equipo constructor\<close>

definition calcular_derivados :: "EstadisticasEquipo \<Rightarrow> error + EstadisticasEquipo" where
  "calcular_derivados =
     secuencia
       [si (\<lambda>s. partidos_jugados s > 0)
          [asignar_porcentaje rendimiento_general_update
             (\<lambda>s. round2 (of_int (puntos s)
                            / of_int (partidos_jugados s * PUNTOS_VICTORIA) * 100)),
           asignar_no_negativo promedio_gf_update
             (\<lambda>s. round2 (of_int (goles_favor s) / of_int (partidos_jugados s))),
           asignar_no_negativo promedio_gc_update
             (\<lambda>s. round2 (of_int (goles_contra s) / of_int (partidos_jugados s)))],
        si (\<lambda>s. pj_local s > 0)
          [asignar_porcentaje rendimiento_local_update
             (\<lambda>s. round2 (of_int (pts_local s)
                            / of_int (pj_local s * PUNTOS_VICTORIA) * 100))],
        si (\<lambda>s. pj_visita s > 0)
          [asignar_porcentaje rendimiento_visita_update
             (\<lambda>s. round2 (of_int (pts_visita s)
                            / of_int (pj_visita s * PUNTOS_VICTORIA) * 100))]]"

text \<open>
  \<open>Equipo(nombre=..., liga_id=..., temporada=..., season_id=...)\<close>: the name has
  \<open>min_length=1\<close>, the year \<open>ge=1900, le=2100\<close>; the three statistics start at their
  defaults.
\<close>

definition crear_Equipo :: "string \<Rightarrow> string \<Rightarrow> int \<Rightarrow> string option \<Rightarrow> error + Equipo" where
  "crear_Equipo nombre' liga_id' temporada' season_id' =
     (if length nombre' \<ge> 1 \<and> 1900 \<le> temporada' \<and> temporada' \<le> 2100
      then Inr \<lparr>nombre = nombre', liga_id = liga_id', temporada = temporada',
                season_id = season_id',
                stats_completo = stats_por_defecto,
                stats_primer_tiempo = stats_por_defecto,
                stats_segundo_tiempo = stats_por_defecto\<rparr>
      else Inl ValidationError)"

subsection \<open>The team cache\<close>

text \<open>
  \<open>equipos_cache\<close> is a dictionary from \<open>f"{liga_id}_{nombre}"\<close> to the team object, in
  insertion order. The statistics objects the source passes to \<open>_actualizar_stats\<close> are
  references into it; here a reference is the key of the team and the time scope, read
  and written through the cache, so that a team playing itself is one object as it is in
  the source.
\<close>

type_synonym cache = "(string \<times> Equipo) list"
type_synonym referencia = "string \<times> TipoTiempo"

fun poner_stats :: "TipoTiempo \<Rightarrow> EstadisticasEquipo \<Rightarrow> Equipo \<Rightarrow> Equipo" where
  "poner_stats COMPLETO s eq = eq\<lparr>stats_completo := s\<rparr>"
| "poner_stats PRIMER_TIEMPO s eq = eq\<lparr>stats_primer_tiempo := s\<rparr>"
| "poner_stats SEGUNDO_TIEMPO s eq = eq\<lparr>stats_segundo_tiempo := s\<rparr>"

definition leer_stats :: "cache \<Rightarrow> referencia \<Rightarrow> error + EstadisticasEquipo" where
  "leer_stats equipos_cache r =
     (case map_of equipos_cache (fst r) of
        None \<Rightarrow> Inl (KeyError (fst r))
      | Some eq \<Rightarrow> Inr (obtener_stats eq (snd r)))"

definition escribir_stats :: "cache \<Rightarrow> referencia \<Rightarrow> EstadisticasEquipo \<Rightarrow> cache" where
  "escribir_stats equipos_cache r s =
     AList.map_entry (fst r) (poner_stats (snd r) s) equipos_cache"

definition obtener_o_crear_equipo ::
    "cache \<Rightarrow> string \<Rightarrow> string \<Rightarrow> int \<Rightarrow> string option \<Rightarrow> error + (cache \<times> string)" where
  "obtener_o_crear_equipo equipos_cache nombre' liga_id' temporada' season_id' =
     (let clave = liga_id' @ ''_'' @ nombre'
      in if map_of equipos_cache clave = None
         then luego (crear_Equipo nombre' liga_id' temporada' season_id')
                (\<lambda>eq. Inr (equipos_cache @ [(clave, eq)], clave))
         else Inr (equipos_cache, clave))"

subsection \<open>_actualizar_stats\<close>

definition resultado_partido :: "int \<Rightarrow> int \<Rightarrow> string \<times> int \<times> int" where
  "resultado_partido goles_local goles_visita =
     (if goles_local > goles_visita then (LOCAL, PUNTOS_VICTORIA, PUNTOS_DERROTA)
      else if goles_local = goles_visita then (EMPATE, PUNTOS_EMPATE, PUNTOS_EMPATE)
      else (VISITA, PUNTOS_DERROTA, PUNTOS_VICTORIA))"

definition actualizar_equipo_local ::
    "int \<Rightarrow> int \<Rightarrow> EstadisticasEquipo \<Rightarrow> error + EstadisticasEquipo" where
  "actualizar_equipo_local goles_local goles_visita =
     (case resultado_partido goles_local goles_visita of
        (resultado, puntos_local, puntos_visita) \<Rightarrow>
          secuencia
            ([sumar partidos_jugados partidos_jugados_update 1,
              sumar goles_favor goles_favor_update goles_local,
              sumar goles_contra goles_contra_update goles_visita,
              sin_validar (diferencia_goles_update (\<lambda>x. x + (goles_local - goles_visita))),
              sumar puntos puntos_update puntos_local,
              sumar pj_local pj_local_update 1,
              sumar gf_local gf_local_update goles_local,
              sumar gc_local gc_local_update goles_visita,
              sumar pts_local pts_local_update puntos_local]
             @ (if resultado = LOCAL
                then [sumar victorias victorias_update 1, sumar v_local v_local_update 1]
                else if resultado = EMPATE
                then [sumar empates empates_update 1, sumar e_local e_local_update 1]
                else [sumar derrotas derrotas_update 1, sumar d_local d_local_update 1])))"

definition actualizar_equipo_visitante ::
    "int \<Rightarrow> int \<Rightarrow> EstadisticasEquipo \<Rightarrow> error + EstadisticasEquipo" where
  "actualizar_equipo_visitante goles_local goles_visita =
     (case resultado_partido goles_local goles_visita of
        (resultado, puntos_local, puntos_visita) \<Rightarrow>
          secuencia
            ([sumar partidos_jugados partidos_jugados_update 1,
              sumar goles_favor goles_favor_update goles_visita,
              sumar goles_contra goles_contra_update goles_local,
              sin_validar (diferencia_goles_update (\<lambda>x. x + (goles_visita - goles_local))),
              sumar puntos puntos_update puntos_visita,
              sumar pj_visita pj_visita_update 1,
              sumar gf_visita gf_visita_update goles_visita,
              sumar gc_visita gc_visita_update goles_local,
              sumar pts_visita pts_visita_update puntos_visita]
             @ (if resultado = VISITA
                then [sumar victorias victorias_update 1, sumar v_visita v_visita_update 1]
                else if resultado = EMPATE
                then [sumar empates empates_update 1, sumar e_visita e_visita_update 1]
                else [sumar derrotas derrotas_update 1, sumar d_visita d_visita_update 1])))"

definition actualizar_stats ::
    "cache \<Rightarrow> referencia \<Rightarrow> referencia \<Rightarrow> int \<Rightarrow> int \<Rightarrow> error + cache" where
  "actualizar_stats equipos_cache stats_local stats_visita goles_local goles_visita =
     luego (leer_stats equipos_cache stats_local) (\<lambda>s.
     luego (actualizar_equipo_local goles_local goles_visita s) (\<lambda>s'.
       (let cache1 = escribir_stats equipos_cache stats_local s'
        in luego (leer_stats cache1 stats_visita) (\<lambda>t.
           luego (actualizar_equipo_visitante goles_local goles_visita t) (\<lambda>t'.
             Inr (escribir_stats cache1 stats_visita t'))))))"

subsection \<open>_procesar_partido and construir_estadisticas\<close>

definition procesar_partido ::
    "cache \<Rightarrow> Partido \<Rightarrow> string \<Rightarrow> int \<Rightarrow> string option \<Rightarrow> error + cache" where
  "procesar_partido equipos_cache partido liga_id' temporada' season_id' =
     (case equipo_local partido of
        None \<Rightarrow> Inl (KeyError ''equipo_local'')
      | Some equipo_local_nombre \<Rightarrow>
     (case equipo_visitante partido of
        None \<Rightarrow> Inl (KeyError ''equipo_visitante'')
      | Some equipo_visitante_nombre \<Rightarrow>
     luego (obtener_o_crear_equipo equipos_cache equipo_local_nombre
              liga_id' temporada' season_id') (\<lambda>(cache1, local).
     luego (obtener_o_crear_equipo cache1 equipo_visitante_nombre
              liga_id' temporada' season_id') (\<lambda>(cache2, visitante).
       (let goles_local_tc = obtener (goles_local_TR partido) 0;
            goles_visita_tc = obtener (goles_visitante_TR partido) 0;
            goles_local_1mt = obtener (goles_local_1MT partido) 0;
            goles_visita_1mt = obtener (goles_visitante_1MT partido) 0;
            goles_local_2mt = goles_local_tc - goles_local_1mt;
            goles_visita_2mt = goles_visita_tc - goles_visita_1mt
        in
          luego (actualizar_stats cache2 (local, COMPLETO) (visitante, COMPLETO)
                   goles_local_tc goles_visita_tc) (\<lambda>cache3.
          luego (actualizar_stats cache3 (local, PRIMER_TIEMPO) (visitante, PRIMER_TIEMPO)
                   goles_local_1mt goles_visita_1mt) (\<lambda>cache4.
          actualizar_stats cache4 (local, SEGUNDO_TIEMPO) (visitante, SEGUNDO_TIEMPO)
            goles_local_2mt goles_visita_2mt)))))))"

text \<open>The loop \<open>for partido in partidos: await self._procesar_partido(...)\<close>.\<close>

fun procesar_partidos ::
    "cache \<Rightarrow> Partido list \<Rightarrow> string \<Rightarrow> int \<Rightarrow> string option \<Rightarrow> error + cache" where
  "procesar_partidos equipos_cache [] liga_id' temporada' season_id' = Inr equipos_cache"
| "procesar_partidos equipos_cache (partido # partidos) liga_id' temporada' season_id' =
     luego (procesar_partido equipos_cache partido liga_id' temporada' season_id')
       (\<lambda>cache1. procesar_partidos cache1 partidos liga_id' temporada' season_id')"

text \<open>The loop that computes the derived fields of every team, once, after the fold.\<close>

definition derivar_equipo :: "Equipo \<Rightarrow> error + Equipo" where
  "derivar_equipo eq =
     luego (calcular_derivados (stats_completo eq)) (\<lambda>c.
     luego (calcular_derivados (stats_primer_tiempo eq)) (\<lambda>p.
     luego (calcular_derivados (stats_segundo_tiempo eq)) (\<lambda>s.
       Inr (eq\<lparr>stats_completo := c, stats_primer_tiempo := p, stats_segundo_tiempo := s\<rparr>))))"

fun derivar_todos :: "cache \<Rightarrow> error + cache" where
  "derivar_todos [] = Inr []"
| "derivar_todos ((clave, eq) # resto) =
     luego (derivar_equipo eq) (\<lambda>eq'.
     luego (derivar_todos resto) (\<lambda>resto'. Inr ((clave, eq') # resto')))"

text \<open>
  \<open>construir_estadisticas\<close>, from the list of matches the query returned (ordered by
  date) on: the league, the effective year and the effective season identifier are its
  resolved parameters. The cache starts empty; an empty match list is a \<open>ValueError\<close>.
  The upsert of the result into the store follows and does not change what is returned.
\<close>

definition construir_estadisticas ::
    "string \<Rightarrow> int \<Rightarrow> string option \<Rightarrow> Partido list \<Rightarrow> error + cache" where
  "construir_estadisticas liga_id' effective_temporada effective_season_id partidos =
     (if partidos = [] then Inl ValueError
      else luego (procesar_partidos [] partidos liga_id' effective_temporada effective_season_id)
             derivar_todos)"

text \<open>The invariant of one statistics object.\<close>

definition cuadra :: "EstadisticasEquipo \<Rightarrow> bool" where
  "cuadra s =
     (victorias s + empates s + derrotas s = partidos_jugados s
      \<and> v_local s + e_local s + d_local s = pj_local s
      \<and> v_visita s + e_visita s + d_visita s = pj_visita s
      \<and> puntos s = victorias s * 3 + empates s * 1)"

definition equipo_cuadra :: "Equipo \<Rightarrow> bool" where
  "equipo_cuadra eq =
     (cuadra (stats_completo eq) \<and> cuadra (stats_primer_tiempo eq)
      \<and> cuadra (stats_segundo_tiempo eq))"

definition cache_cuadra :: "cache \<Rightarrow> bool" where
  "cache_cuadra equipos_cache = list_all (\<lambda>entrada. equipo_cuadra (snd entrada)) equipos_cache"

section \<open>classification.py\<close>

record FilaClasificacion =
  posicion :: int
  equipo :: string
  pj :: int
  fila_v :: int
  fila_e :: int
  fila_d :: int
  gf :: int
  gc :: int
  dif :: int
  pts :: int
  pj_l :: int
  v_l :: int
  e_l :: int
  d_l :: int
  gf_l :: int
  gc_l :: int
  pts_l :: int
  pj_v :: int
  v_v :: int
  e_v :: int
  d_v :: int
  gf_v :: int
  gc_v :: int
  pts_v :: int
  rendimiento :: real
  rendimiento_l :: real
  rendimiento_v :: real

text \<open>
  The constraints the constructor \<open>FilaClasificacion(...)\<close> checks on what it is given:
  every counter \<open>ge=0\<close> (the goal difference is free), every ratio within 0..100.
\<close>

definition stats_en_rango :: "EstadisticasEquipo \<Rightarrow> bool" where
  "stats_en_rango s =
     (0 \<le> partidos_jugados s \<and> 0 \<le> victorias s \<and> 0 \<le> empates s \<and> 0 \<le> derrotas s
      \<and> 0 \<le> goles_favor s \<and> 0 \<le> goles_contra s \<and> 0 \<le> puntos s
      \<and> 0 \<le> pj_local s \<and> 0 \<le> v_local s \<and> 0 \<le> e_local s \<and> 0 \<le> d_local s
      \<and> 0 \<le> gf_local s \<and> 0 \<le> gc_local s \<and> 0 \<le> pts_local s
      \<and> 0 \<le> pj_visita s \<and> 0 \<le> v_visita s \<and> 0 \<le> e_visita s \<and> 0 \<le> d_visita s
      \<and> 0 \<le> gf_visita s \<and> 0 \<le> gc_visita s \<and> 0 \<le> pts_visita s
      \<and> 0 \<le> rendimiento_general s \<and> rendimiento_general s \<le> 100
      \<and> 0 \<le> rendimiento_local s \<and> rendimiento_local s \<le> 100
      \<and> 0 \<le> rendimiento_visita s \<and> rendimiento_visita s \<le> 100)"

definition crear_fila :: "Equipo \<Rightarrow> TipoTiempo \<Rightarrow> error + FilaClasificacion" where
  "crear_fila eq tipo_tiempo =
     (let stats = obtener_stats eq tipo_tiempo
      in if stats_en_rango stats
         then Inr \<lparr>posicion = 0, equipo = nombre eq,
                   pj = partidos_jugados stats, fila_v = victorias stats,
                   fila_e = empates stats, fila_d = derrotas stats,
                   gf = goles_favor stats, gc = goles_contra stats,
                   dif = diferencia_goles stats, pts = puntos stats,
                   pj_l = pj_local stats, v_l = v_local stats, e_l = e_local stats,
                   d_l = d_local stats, gf_l = gf_local stats, gc_l = gc_local stats,
                   pts_l = pts_local stats,
                   pj_v = pj_visita stats, v_v = v_visita stats, e_v = e_visita stats,
                   d_v = d_visita stats, gf_v = gf_visita stats, gc_v = gc_visita stats,
                   pts_v = pts_visita stats,
                   rendimiento = rendimiento_general stats,
                   rendimiento_l = rendimiento_local stats,
                   rendimiento_v = rendimiento_visita stats\<rparr>
         else Inl ValidationError)"

fun crear_filas :: "Equipo list \<Rightarrow> TipoTiempo \<Rightarrow> error + FilaClasificacion list" where
  "crear_filas [] tipo_tiempo = Inr []"
| "crear_filas (eq # equipos) tipo_tiempo =
     luego (crear_fila eq tipo_tiempo) (\<lambda>fila.
     luego (crear_filas equipos tipo_tiempo) (\<lambda>filas. Inr (fila # filas)))"

text \<open>
  The sort key \<open>lambda x: (-x.pts, -x.dif, -x.gf, x.equipo)\<close>: tuples compare
  lexicographically, strings character by character. \<open>list.sort\<close> is stable, as
  \<open>sort_key\<close> is.
\<close>

definition clave_orden :: "FilaClasificacion \<Rightarrow> int \<times> int \<times> int \<times> string" where
  "clave_orden x = (- pts x, - dif x, - gf x, equipo x)"

text \<open>\<open>for idx, fila in enumerate(filas, 1): fila.posicion = idx\<close>.\<close>

fun asignar_posiciones :: "int \<Rightarrow> FilaClasificacion list \<Rightarrow> FilaClasificacion list" where
  "asignar_posiciones idx [] = []"
| "asignar_posiciones idx (fila # filas) =
     fila\<lparr>posicion := idx\<rparr> # asignar_posiciones (idx + 1) filas"

text \<open>
  \<open>generar_clasificacion\<close>, from the list of teams the statistics store returned on; the
  result is the list \<open>filas\<close> of the table.
\<close>

definition generar_clasificacion ::
    "Equipo list \<Rightarrow> TipoTiempo \<Rightarrow> error + FilaClasificacion list" where
  "generar_clasificacion equipos tipo_tiempo =
     (if equipos = [] then Inl ValueError
      else luego (crear_filas equipos tipo_tiempo) (\<lambda>filas.
             Inr (asignar_posiciones 1 (sort_key clave_orden filas))))"

section \<open>validation.py: calcular_efectividad\<close>

record Mercado =
  aciertos :: nat
  accuracy :: real

datatype Efectividad =
    SinValidaciones
  | Efectividad
      (total_validaciones: nat)
      (tc_doble_oportunidad: Mercado) (tc_ambos_marcan: Mercado) (tc_principal: Mercado)
      (mt1_doble_oportunidad: Mercado) (mt1_ambos_marcan: Mercado)
      (mt2_doble_oportunidad: Mercado) (mt2_ambos_marcan: Mercado)

text \<open>
  The query built by \<open>calcular_efectividad\<close> has at most the two bounds on
  \<open>fecha_validacion\<close>; the store answers with the validations that satisfy it.
\<close>

definition consulta_validaciones ::
    "int option \<Rightarrow> int option \<Rightarrow> Validacion list \<Rightarrow> Validacion list" where
  "consulta_validaciones fecha_inicio fecha_fin coleccion =
     filter (\<lambda>v. (case fecha_inicio of None \<Rightarrow> True | Some desde \<Rightarrow> desde \<le> fecha_validacion v)
               \<and> (case fecha_fin of None \<Rightarrow> True | Some hasta \<Rightarrow> fecha_validacion v \<le> hasta))
       coleccion"

definition contar :: "('a \<Rightarrow> bool) \<Rightarrow> 'a list \<Rightarrow> nat" where
  "contar condicion xs = length (filter condicion xs)"

definition gana_doble :: "ValidacionTiempo option \<Rightarrow> bool" where
  "gana_doble vt = (case vt of None \<Rightarrow> False | Some t \<Rightarrow> resultado_doble_oportunidad t = GANA)"

definition gana_ambos :: "ValidacionTiempo option \<Rightarrow> bool" where
  "gana_ambos vt = (case vt of None \<Rightarrow> False | Some t \<Rightarrow> resultado_ambos_marcan t = GANA)"

definition mercado :: "nat \<Rightarrow> nat \<Rightarrow> Mercado" where
  "mercado ganadas total' =
     \<lparr>aciertos = ganadas,
      accuracy = (if total' > 0 then round2 (of_nat ganadas / of_nat total' * 100) else 0)\<rparr>"

definition calcular_efectividad ::
    "Validacion list \<Rightarrow> string option \<Rightarrow> int option \<Rightarrow> int option \<Rightarrow> Efectividad" where
  "calcular_efectividad coleccion liga_id' fecha_inicio fecha_fin =
     (let validaciones = consulta_validaciones fecha_inicio fecha_fin coleccion
      in if validaciones = [] then SinValidaciones
         else
           (let total = length validaciones
            in Efectividad total
                 (mercado (contar (\<lambda>v. gana_doble (Some (validacion_tc v))) validaciones) total)
                 (mercado (contar (\<lambda>v. gana_ambos (Some (validacion_tc v))) validaciones) total)
                 (mercado (contar (\<lambda>v. acierto_principal (validacion_tc v)) validaciones) total)
                 (mercado (contar (\<lambda>v. gana_doble (validacion_1mt v)) validaciones) total)
                 (mercado (contar (\<lambda>v. gana_ambos (validacion_1mt v)) validaciones) total)
                 (mercado (contar (\<lambda>v. gana_doble (validacion_2mt v)) validaciones) total)
                 (mercado (contar (\<lambda>v. gana_ambos (validacion_2mt v)) validaciones) total)))"

text \<open>
  A validation carries the identifier of its forecast and no league of its own; the league
  it belongs to is the one of that forecast. What the claim describes keeps only the
  validations of the requested league before counting.
\<close>

definition liga_de_validacion :: "(string \<rightharpoonup> Pronostico) \<Rightarrow> Validacion \<Rightarrow> string option" where
  "liga_de_validacion pronosticos v =
     (case pronosticos (pronostico_id v) of
        None \<Rightarrow> None
      | Some pr \<Rightarrow> Some (pronostico_liga_id pr))"

definition efectividad_filtrada_spec ::
    "(string \<rightharpoonup> Pronostico) \<Rightarrow> Validacion list \<Rightarrow> string option \<Rightarrow> int option \<Rightarrow> int option
     \<Rightarrow> Efectividad" where
  "efectividad_filtrada_spec pronosticos coleccion liga fecha_inicio fecha_fin =
     (case liga of
        None \<Rightarrow> calcular_efectividad coleccion None fecha_inicio fecha_fin
      | Some l \<Rightarrow>
          calcular_efectividad
            (filter (\<lambda>v. liga_de_validacion pronosticos v = Some l) coleccion)
            None fecha_inicio fecha_fin)"

section \<open>historico_consolidado.py: season weights\<close>

definition PESO_TEMPORADA_ACTUAL :: real where "PESO_TEMPORADA_ACTUAL = 70 / 100"
definition PESO_HISTORICO :: real where "PESO_HISTORICO = 30 / 100"

text \<open>
  The body of \<open>for i in range(1, n)\<close>, on the pair of the list built so far and the
  weight still unassigned.
\<close>

definition paso_pesos :: "nat \<Rightarrow> real list \<times> real \<Rightarrow> nat \<Rightarrow> real list \<times> real" where
  "paso_pesos n estado i =
     (case estado of (pesos, peso_restante) \<Rightarrow>
        if i = n - 1 then (pesos @ [peso_restante], peso_restante)
        else (let peso = peso_restante * (6 / 10)
              in (pesos @ [peso], peso_restante - peso)))"

definition calcular_pesos :: "nat \<Rightarrow> real list" where
  "calcular_pesos n =
     (if n = 1 then [1]
      else fst (foldl (paso_pesos n) ([PESO_TEMPORADA_ACTUAL], PESO_HISTORICO) [1..<n]))"

section \<open>Worked inputs\<close>

definition probabilidades_local_ejemplo :: Probabilidades where
  "probabilidades_local_ejemplo =
     \<lparr>porcentaje_local = 50, porcentaje_empate = 15, porcentaje_visita = 35\<rparr>"

definition stats_local_ejemplo :: EstadisticasEquipo where
  "stats_local_ejemplo = stats_por_defecto\<lparr>pj_local := 10, rendimiento_local := 60\<rparr>"

definition stats_visitante_ejemplo :: EstadisticasEquipo where
  "stats_visitante_ejemplo = stats_por_defecto\<lparr>pj_visita := 10, rendimiento_visita := 40\<rparr>"

definition probabilidades_ejemplo :: Probabilidades where
  "probabilidades_ejemplo =
     \<lparr>porcentaje_local = 54, porcentaje_empate = 10, porcentaje_visita = 36\<rparr>"

definition forma_ejemplo :: "real option \<Rightarrow> FormaReciente" where
  "forma_ejemplo r = \<lparr>forma_rendimiento = r\<rparr>"

definition factores_ejemplo :: FactoresHistoricos where
  "factores_ejemplo =
     \<lparr>h2h = None, historico_factor_local = Some (11 / 10), historico_factor_visita = None\<rparr>"

definition periodo_local_ejemplo :: PronosticoTiempo where
  "periodo_local_ejemplo =
     \<lparr>pronostico = LOCAL, doble_oportunidad = LOCAL_EMPATE, ambos_marcan = SI,
      probabilidades =
        \<lparr>porcentaje_local = 50, porcentaje_empate = 15, porcentaje_visita = 35\<rparr>,
      confianza = 60, factor_local = 3, factor_visita = 3\<rparr>"

definition periodo_empate_ejemplo :: PronosticoTiempo where
  "periodo_empate_ejemplo =
     \<lparr>pronostico = EMPATE, doble_oportunidad = EMPATE_VISITA, ambos_marcan = NO,
      probabilidades =
        \<lparr>porcentaje_local = 35, porcentaje_empate = 30, porcentaje_visita = 35\<rparr>,
      confianza = 30, factor_local = 3, factor_visita = 3\<rparr>"

definition pronostico_ejemplo :: Pronostico where
  "pronostico_ejemplo =
     \<lparr>pronostico_ident = ''p1'', pronostico_partido_id = None,
      pronostico_equipo_local = ''Alfa'', pronostico_equipo_visitante = ''Beta'',
      pronostico_liga_id = ''SPAIN_LA_LIGA'', pronostico_season_id = None,
      tiempo_completo = periodo_local_ejemplo,
      primer_tiempo = periodo_local_ejemplo,
      segundo_tiempo = periodo_empate_ejemplo\<rparr>"


text \<open>The loop invariant of \<open>_calcular_pesos\<close> before the last season is reached.\<close>

definition inv_pesos :: "nat \<Rightarrow> real list \<times> real \<Rightarrow> bool" where
  "inv_pesos m estado =
     (case estado of (ps, r) \<Rightarrow>
        length ps = m \<and> r = 1 - sum_list ps \<and> ps ! 0 = 7 / 10
        \<and> (\<forall>i. 1 \<le> i \<and> i < m \<longrightarrow> ps ! i = 6 / 10 * (1 - sum_list (take i ps))))"

text \<open>Match records: a consistent one, one whose first-half home goals exceed the
  full-time ones, and one without the home team's name.\<close>

definition partido_inconsistente :: Partido where
  "partido_inconsistente =
     \<lparr>equipo_local = Some ''Alfa'', equipo_visitante = Some ''Beta'',
      goles_local_TR = Some 0, goles_visitante_TR = Some 0,
      goles_local_1MT = Some 1, goles_visitante_1MT = Some 0\<rparr>"

definition partido_bueno :: Partido where
  "partido_bueno =
     \<lparr>equipo_local = Some ''Alfa'', equipo_visitante = Some ''Beta'',
      goles_local_TR = Some 2, goles_visitante_TR = Some 1,
      goles_local_1MT = Some 1, goles_visitante_1MT = Some 0\<rparr>"

definition partido_sin_local :: Partido where
  "partido_sin_local =
     \<lparr>equipo_local = None, equipo_visitante = Some ''Beta'',
      goles_local_TR = Some 1, goles_visitante_TR = Some 1,
      goles_local_1MT = Some 0, goles_visitante_1MT = Some 0\<rparr>"

text \<open>A statement preserves a property of the object it mutates.\<close>

definition preserva :: "('s \<Rightarrow> bool) \<Rightarrow> ('s \<Rightarrow> error + 's) \<Rightarrow> bool" where
  "preserva P sentencia = (\<forall>s s'. sentencia s = Inr s' \<longrightarrow> P s \<longrightarrow> P s')"

text \<open>
  What the specification describes for a failing record in a batch: the record is
  skipped, an error counter is incremented, and the fold goes on with the next record.
\<close>

fun procesar_aislando_spec ::
    "cache \<Rightarrow> nat \<Rightarrow> Partido list \<Rightarrow> string \<Rightarrow> int \<Rightarrow> string option \<Rightarrow> cache \<times> nat" where
  "procesar_aislando_spec equipos_cache errores [] liga_id' temporada' season_id' =
     (equipos_cache, errores)"
| "procesar_aislando_spec equipos_cache errores (partido # partidos)
       liga_id' temporada' season_id' =
     (case procesar_partido equipos_cache partido liga_id' temporada' season_id' of
        Inl err \<Rightarrow>
          procesar_aislando_spec equipos_cache (Suc errores) partidos
            liga_id' temporada' season_id'
      | Inr cache1 \<Rightarrow>
          procesar_aislando_spec cache1 errores partidos liga_id' temporada' season_id')"

text \<open>
  The order of the table in the words of the specification: more points first, then the
  larger goal difference, then more goals for, then the earlier name.
\<close>

definition mejor_o_igual :: "FilaClasificacion \<Rightarrow> FilaClasificacion \<Rightarrow> bool" where
  "mejor_o_igual a b =
     (pts a > pts b
      \<or> (pts a = pts b
          \<and> (dif a > dif b
              \<or> (dif a = dif b
                  \<and> (gf a > gf b \<or> (gf a = gf b \<and> equipo a \<le> equipo b))))))"

definition equipo_ejemplo :: "string \<Rightarrow> int \<Rightarrow> int \<Rightarrow> int \<Rightarrow> Equipo" where
  "equipo_ejemplo n p d g =
     \<lparr>nombre = n, liga_id = ''LIGA'', temporada = 2023, season_id = None,
      stats_completo = stats_por_defecto\<lparr>puntos := p, diferencia_goles := d, goles_favor := g\<rparr>,
      stats_primer_tiempo = stats_por_defecto,
      stats_segundo_tiempo = stats_por_defecto\<rparr>"

text \<open>
  Six teams in an order that is neither that of the table nor alphabetical: one ahead on
  points with the worst goal difference, five level on points that the goal difference,
  the goals for and the name separate in turn.
\<close>

definition equipos_ejemplo :: "Equipo list" where
  "equipos_ejemplo =
     [equipo_ejemplo ''Alfa'' 10 1 20, equipo_ejemplo ''Gamma'' 10 2 7,
      equipo_ejemplo ''Delta'' 10 2 9, equipo_ejemplo ''Beta'' 10 2 7,
      equipo_ejemplo ''Omega'' 10 5 0, equipo_ejemplo ''Zeta'' 12 (- 1) 5]"

text \<open>Two stored validations, of forecasts of two different leagues.\<close>

definition periodo_gana_ejemplo :: ValidacionTiempo where
  "periodo_gana_ejemplo =
     \<lparr>resultado_doble_oportunidad = GANA, resultado_ambos_marcan = GANA,
      pronostico_original = LOCAL, resultado_real = LOCAL, acierto_principal = True\<rparr>"

definition periodo_pierde_ejemplo :: ValidacionTiempo where
  "periodo_pierde_ejemplo =
     \<lparr>resultado_doble_oportunidad = PIERDE, resultado_ambos_marcan = PIERDE,
      pronostico_original = LOCAL, resultado_real = VISITA, acierto_principal = False\<rparr>"

definition validacion_espana_ejemplo :: Validacion where
  "validacion_espana_ejemplo =
     \<lparr>pronostico_id = ''p1'', validacion_partido_id = None,
      gol_local_tc = 2, gol_visita_tc = 1, gol_local_1mt = 1, gol_visita_1mt = 1,
      validacion_tc = periodo_gana_ejemplo,
      validacion_1mt = Some periodo_gana_ejemplo,
      validacion_2mt = Some periodo_gana_ejemplo,
      fecha_validacion = 10\<rparr>"

definition validacion_inglaterra_ejemplo :: Validacion where
  "validacion_inglaterra_ejemplo =
     \<lparr>pronostico_id = ''p2'', validacion_partido_id = None,
      gol_local_tc = 0, gol_visita_tc = 3, gol_local_1mt = 0, gol_visita_1mt = 1,
      validacion_tc = periodo_pierde_ejemplo,
      validacion_1mt = Some periodo_pierde_ejemplo,
      validacion_2mt = Some periodo_pierde_ejemplo,
      fecha_validacion = 11\<rparr>"

definition pronosticos_dos_ligas :: "string \<rightharpoonup> Pronostico" where
  "pronosticos_dos_ligas =
     [''p1'' \<mapsto> pronostico_ejemplo,
      ''p2'' \<mapsto> pronostico_ejemplo
                  \<lparr>pronostico_ident := ''p2'', pronostico_liga_id := ''ENGLAND_PREMIER_LEAGUE''\<rparr>]"


section \<open>Unfolding the configuration\<close>

lemmas umbrales_defs =
  PROB_LOCAL_MIN_def PROB_LOCAL_MAX_def PROB_EMPATE_MAX_def DIFERENCIA_EMPATE_def
  SUMA_PROB_MIN_def UMBRAL_AMBOS_MARCAN_def PESO_FORMA_RECIENTE_def

lemmas config_defs =
  PUNTOS_VICTORIA_def PUNTOS_EMPATE_def PUNTOS_DERROTA_def MIN_PARTIDOS_CONFIABLE_def
  DEFECTO_prob_local_def DEFECTO_prob_empate_def DEFECTO_prob_visita_def


section \<open>The decision rule\<close>

text \<open>
  C1. For every probability triple and every pair of integer strength factors (in
  particular those in 1..5), the decision function adjusts home and away by
  \<open>(factor - 3) * 2\<close> and returns what the ordered rule list of the specification returns:
  HOME inside (43, 69.5) with draw below 20, HOME from 69.5 on, AWAY below 43 when away
  exceeds home, DRAW when draw is at least 20 and the two sides are less than 10 apart,
  and otherwise the largest of home, away, draw with ties resolved in that order.
\<close>

theorem decision_sigue_reglas_ordenadas:
  "aplicar_algoritmo_decision p f_home f_away = regla_decision_spec p f_home f_away"
  unfolding aplicar_algoritmo_decision_def regla_decision_spec_def Let_def umbrales_defs
  by (simp add: not_less not_le)

section \<open>Double chance: coverage\<close>

lemma doce_solo_si_suma_alta:
  "(generar_doble_oportunidad x p = LOCAL_VISITA)
     = (porcentaje_local p + porcentaje_visita p > SUMA_PROB_MIN)"
  by (simp add: generar_doble_oportunidad_def Let_def)

lemma validas_sin_doce:
  assumes "probabilidades_validas p"
  shows "\<not> porcentaje_local p + porcentaje_visita p > SUMA_PROB_MIN"
  using assms
  unfolding probabilidades_validas_def suma_cien_def suma_def tolerancia_def SUMA_PROB_MIN_def
  by linarith

lemma decision_es_letra:
  "aplicar_algoritmo_decision p fl fv \<in> {LOCAL, EMPATE, VISITA}"
  by (simp add: aplicar_algoritmo_decision_def Let_def)

lemma doble_cubre_letra:
  assumes "probabilidades_validas p" and "x \<in> {LOCAL, EMPATE, VISITA}"
  shows "x \<in> set (cobertura (generar_doble_oportunidad x p))"
  using validas_sin_doce [OF assms(1)] assms(2)
  by (auto simp: generar_doble_oportunidad_def cobertura_def Let_def)

text \<open>
  C3. For every probability triple with non-negative components that add up to 100 within
  the rounding tolerance, home% + away% does not exceed 116, so the branch that picks 12
  is not taken, and the double-chance pick generated for a primary outcome covers it:
  HOME gives 1X, AWAY gives X2, DRAW gives 1X or X2 (both cover the draw); for the outcome
  the decision rule returns (whatever the strength factors) the pick is never 12, covers
  the outcome, and validates as a win against it.
\<close>

theorem doble_oportunidad_cubre_pronostico:
  assumes "probabilidades_validas p"
  shows "\<not> porcentaje_local p + porcentaje_visita p > SUMA_PROB_MIN
       \<and> generar_doble_oportunidad LOCAL p = LOCAL_EMPATE
       \<and> LOCAL \<in> set (cobertura LOCAL_EMPATE)
       \<and> generar_doble_oportunidad VISITA p = EMPATE_VISITA
       \<and> VISITA \<in> set (cobertura EMPATE_VISITA)
       \<and> generar_doble_oportunidad EMPATE p \<in> {LOCAL_EMPATE, EMPATE_VISITA}
       \<and> EMPATE \<in> set (cobertura LOCAL_EMPATE) \<and> EMPATE \<in> set (cobertura EMPATE_VISITA)
       \<and> generar_doble_oportunidad (aplicar_algoritmo_decision p f_home f_away) p \<noteq> LOCAL_VISITA
       \<and> aplicar_algoritmo_decision p f_home f_away
           \<in> set (cobertura
                (generar_doble_oportunidad (aplicar_algoritmo_decision p f_home f_away) p))
       \<and> validar_doble_oportunidad
           (generar_doble_oportunidad (aplicar_algoritmo_decision p f_home f_away) p)
           (aplicar_algoritmo_decision p f_home f_away) = GANA"
proof -
  define x where "x = aplicar_algoritmo_decision p f_home f_away"
  have letra: "x \<in> {LOCAL, EMPATE, VISITA}"
    unfolding x_def by (rule decision_es_letra)
  have cubre: "x \<in> set (cobertura (generar_doble_oportunidad x p))"
    using assms letra by (rule doble_cubre_letra)
  have sin12: "\<not> porcentaje_local p + porcentaje_visita p > SUMA_PROB_MIN"
    using assms by (rule validas_sin_doce)
  have nunca12: "generar_doble_oportunidad x p \<noteq> LOCAL_VISITA"
    using sin12 by (simp add: doce_solo_si_suma_alta)
  have l: "generar_doble_oportunidad LOCAL p = LOCAL_EMPATE"
    using sin12 by (simp add: generar_doble_oportunidad_def Let_def)
  have v: "generar_doble_oportunidad VISITA p = EMPATE_VISITA"
    using sin12 by (simp add: generar_doble_oportunidad_def Let_def)
  have e: "generar_doble_oportunidad EMPATE p \<in> {LOCAL_EMPATE, EMPATE_VISITA}"
    using sin12 by (simp add: generar_doble_oportunidad_def Let_def)
  have c: "LOCAL \<in> set (cobertura LOCAL_EMPATE) \<and> VISITA \<in> set (cobertura EMPATE_VISITA)
         \<and> EMPATE \<in> set (cobertura LOCAL_EMPATE) \<and> EMPATE \<in> set (cobertura EMPATE_VISITA)"
    by (simp add: cobertura_def)
  have g: "validar_doble_oportunidad (generar_doble_oportunidad x p) x = GANA"
    using cubre by (simp add: validar_doble_oportunidad_def)
  show ?thesis
    using sin12 l v e c nunca12 cubre g unfolding x_def by simp
qed

theorem doble_oportunidad_cubre_pronostico_witness:
  "probabilidades_validas probabilidades_local_ejemplo
   \<and> aplicar_algoritmo_decision probabilidades_local_ejemplo 3 3 = LOCAL
   \<and> generar_doble_oportunidad
        (aplicar_algoritmo_decision probabilidades_local_ejemplo 3 3)
        probabilidades_local_ejemplo = LOCAL_EMPATE
   \<and> validar_doble_oportunidad LOCAL_EMPATE LOCAL = GANA"
proof -
  have v: "probabilidades_validas probabilidades_local_ejemplo"
    by (simp add: probabilidades_validas_def suma_cien_def suma_def tolerancia_def
        probabilidades_local_ejemplo_def)
  have d: "aplicar_algoritmo_decision probabilidades_local_ejemplo 3 3 = LOCAL"
    by (simp add: aplicar_algoritmo_decision_def probabilidades_local_ejemplo_def Let_def
        umbrales_defs)
  show ?thesis
    using v d doble_oportunidad_cubre_pronostico [OF v, of 3 3] by auto
qed

section \<open>Validation of a forecast whose primary pick is right\<close>




section \<open>Probabilities add up to 100\<close>

lemma redondear_entero_cerca: "\<bar>of_int (redondear_entero y) - y\<bar> \<le> 1 / 2"
proof -
  have "of_int \<lfloor>y\<rfloor> \<le> y" and "y < of_int \<lfloor>y\<rfloor> + 1" by linarith+
  then show ?thesis
    unfolding redondear_entero_def Let_def by (auto simp: abs_le_iff)
qed

lemma round2_cerca: "\<bar>round2 x - x\<bar> \<le> 1 / 200"
proof -
  have "\<bar>of_int (redondear_entero (x * 100)) - x * 100\<bar> \<le> 1 / 2"
    by (rule redondear_entero_cerca)
  then show ?thesis unfolding round2_def by (simp add: abs_le_iff field_simps)
qed

lemma redondear_entero_rango:
  assumes "0 \<le> y" and "y \<le> of_int n"
  shows "0 \<le> redondear_entero y \<and> redondear_entero y \<le> n"
proof -
  have f0: "0 \<le> \<lfloor>y\<rfloor>" using assms(1) by simp
  have fn: "\<lfloor>y\<rfloor> \<le> n" using assms(2) by (simp add: floor_le_iff)
  have cota: "redondear_entero y = \<lfloor>y\<rfloor> \<or> redondear_entero y = \<lfloor>y\<rfloor> + 1"
    unfolding redondear_entero_def Let_def by simp
  show ?thesis
  proof (cases "\<lfloor>y\<rfloor> = n")
    case True
    then have "y - of_int \<lfloor>y\<rfloor> < 1 / 2" using assms(2) by simp
    then have "redondear_entero y = \<lfloor>y\<rfloor>"
      unfolding redondear_entero_def Let_def by simp
    then show ?thesis using f0 True by simp
  next
    case False
    then have "\<lfloor>y\<rfloor> + 1 \<le> n" using fn by simp
    then show ?thesis using cota f0 fn by auto
  qed
qed

lemma round2_rango:
  assumes "0 \<le> x" and "x \<le> 100"
  shows "0 \<le> round2 x \<and> round2 x \<le> 100"
proof -
  have "0 \<le> x * 100" and "x * 100 \<le> of_int 10000" using assms by simp_all
  from redondear_entero_rango [OF this]
  have "0 \<le> redondear_entero (x * 100)" and "redondear_entero (x * 100) \<le> 10000" by simp_all
  then have "0 \<le> (of_int (redondear_entero (x * 100)) :: real)"
    and "(of_int (redondear_entero (x * 100)) :: real) \<le> 10000"
    by simp_all
  then show ?thesis unfolding round2_def by simp
qed

lemma suma_redondeada:
  assumes "a + b + c = 100"
  shows "\<bar>round2 a + round2 b + round2 c - 100\<bar> \<le> tolerancia"
  using round2_cerca [of a] round2_cerca [of b] round2_cerca [of c] assms
  unfolding tolerancia_def by linarith

lemma crear_suma_cien:
  assumes "crear_Probabilidades (round2 a) (round2 b) (round2 c) = Inr q" and "a + b + c = 100"
  shows "suma_cien q"
proof -
  have "suma q = round2 a + round2 b + round2 c"
    using assms(1) by (auto simp: crear_Probabilidades_def suma_def split: if_splits)
  then show ?thesis using suma_redondeada [OF assms(2)] by (simp add: suma_cien_def)
qed

lemma normalizar_cien:
  assumes "t \<noteq> 0" and "t = a + b + c"
  shows "a / t * 100 + b / t * 100 + c / t * 100 = (100::real)"
proof -
  have "a / t * 100 + b / t * 100 + c / t * 100 = (a + b + c) / t * 100"
    by (simp add: add_divide_distrib distrib_right)
  also have "\<dots> = t / t * 100" using assms(2) by simp
  also have "\<dots> = 100" using assms(1) by simp
  finally show ?thesis .
qed

lemma crear_normalizado:
  assumes "crear_Probabilidades (round2 (a / t * 100)) (round2 (b / t * 100))
             (round2 (c / t * 100)) = Inr q"
      and "t \<noteq> 0" and "t = a + b + c"
  shows "suma_cien q"
  using assms(1) normalizar_cien [OF assms(2,3)] by (rule crear_suma_cien)

lemma crear_por_defecto:
  "crear_Probabilidades DEFECTO_prob_local DEFECTO_prob_empate DEFECTO_prob_visita = Inr q
   \<Longrightarrow> suma_cien q"
  by (auto simp: crear_Probabilidades_def config_defs suma_cien_def suma_def tolerancia_def)

lemma calcular_probabilidades_suma:
  assumes "calcular_probabilidades sl sv = Inr q"
  shows "suma_cien q"
proof -
  define rl where "rl = (if pj_local sl < MIN_PARTIDOS_CONFIABLE then DEFECTO_prob_local
                         else rendimiento_local sl)"
  define rv where "rv = (if pj_visita sv < MIN_PARTIDOS_CONFIABLE then DEFECTO_prob_visita
                         else rendimiento_visita sv)"
  define fe where "fe = max 0 (30 - \<bar>rl / (rl + rv) * 100 - rv / (rl + rv) * 100\<bar>)"
  define pl where "pl = rl / (rl + rv) * 100 * (100 - fe) / 100"
  define pv where "pv = rv / (rl + rv) * 100 * (100 - fe) / 100"
  have eq: "calcular_probabilidades sl sv =
      (if rl + rv = 0
       then crear_Probabilidades DEFECTO_prob_local DEFECTO_prob_empate DEFECTO_prob_visita
       else if pl + fe + pv = 0 then Inl ZeroDivisionError
       else crear_Probabilidades (round2 (pl / (pl + fe + pv) * 100))
              (round2 (fe / (pl + fe + pv) * 100)) (round2 (pv / (pl + fe + pv) * 100)))"
    unfolding calcular_probabilidades_def Let_def rl_def rv_def fe_def pl_def pv_def ..
  show ?thesis
  proof (cases "rl + rv = 0")
    case True
    with assms eq show ?thesis by (simp add: crear_por_defecto)
  next
    case False
    with assms eq have ne: "pl + fe + pv \<noteq> 0"
      by (auto split: if_splits)
    with assms eq False have
      "crear_Probabilidades (round2 (pl / (pl + fe + pv) * 100))
         (round2 (fe / (pl + fe + pv) * 100)) (round2 (pv / (pl + fe + pv) * 100)) = Inr q"
      by simp
    then show ?thesis using ne by (rule crear_normalizado) simp
  qed
qed

lemma forma_suma:
  assumes "ajustar_por_forma_reciente p fl fv = Inr q"
  shows "suma_cien q"
proof -
  define a where "a = max 5 (min 90 (porcentaje_local p
     + ((case forma_rendimiento fl of None \<Rightarrow> 50 | Some r \<Rightarrow> r) - 50) / 50
       * PESO_FORMA_RECIENTE * 10))"
  define c where "c = max 5 (min 90 (porcentaje_visita p
     + ((case forma_rendimiento fv of None \<Rightarrow> 50 | Some r \<Rightarrow> r) - 50) / 50
       * PESO_FORMA_RECIENTE * 10))"
  define b where "b = max 5 (min 50 (100 - a - c))"
  have eq: "ajustar_por_forma_reciente p fl fv =
      (if a + b + c = 0 then Inl ZeroDivisionError
       else crear_Probabilidades (round2 (a / (a + b + c) * 100))
              (round2 (b / (a + b + c) * 100)) (round2 (c / (a + b + c) * 100)))"
    unfolding ajustar_por_forma_reciente_def Let_def a_def b_def c_def ..
  from assms eq have ne: "a + b + c \<noteq> 0" by (auto split: if_splits)
  with assms eq have
    "crear_Probabilidades (round2 (a / (a + b + c) * 100))
       (round2 (b / (a + b + c) * 100)) (round2 (c / (a + b + c) * 100)) = Inr q"
    by simp
  then show ?thesis using ne by (rule crear_normalizado) simp
qed

lemma historico_suma:
  assumes "ajustar_por_historico p fh = Inr q"
  shows "suma_cien q"
proof -
  obtain a0 b c0 where m: "mezclar_h2h (h2h fh)
      (porcentaje_local p, porcentaje_empate p, porcentaje_visita p) = (a0, b, c0)"
    by (cases "mezclar_h2h (h2h fh)
      (porcentaje_local p, porcentaje_empate p, porcentaje_visita p)") auto
  define a where "a = a0 * obtener (historico_factor_local fh) 1"
  define c where "c = c0 * obtener (historico_factor_visita fh) 1"
  have eq: "ajustar_por_historico p fh =
      (if a + b + c = 0 then Inl ZeroDivisionError
       else crear_Probabilidades (round2 (a / (a + b + c) * 100))
              (round2 (b / (a + b + c) * 100)) (round2 (c / (a + b + c) * 100)))"
    unfolding ajustar_por_historico_def m Let_def a_def c_def by simp
  from assms eq have ne: "a + b + c \<noteq> 0" by (auto split: if_splits)
  with assms eq have
    "crear_Probabilidades (round2 (a / (a + b + c) * 100))
       (round2 (b / (a + b + c) * 100)) (round2 (c / (a + b + c) * 100)) = Inr q"
    by simp
  then show ?thesis using ne by (rule crear_normalizado) simp
qed

text \<open>What each of the three steps returns is a triple as the later steps expect it.\<close>

lemma crear_no_negativas:
  "crear_Probabilidades l e v = Inr q \<Longrightarrow>
   0 \<le> porcentaje_local q \<and> 0 \<le> porcentaje_empate q \<and> 0 \<le> porcentaje_visita q"
  by (auto simp: crear_Probabilidades_def split: if_splits)

lemma crear_normalizado_valida:
  assumes "crear_Probabilidades (round2 (a / t * 100)) (round2 (b / t * 100))
             (round2 (c / t * 100)) = Inr q"
      and "t \<noteq> 0" and "t = a + b + c"
  shows "probabilidades_validas q"
  using crear_normalizado [OF assms] crear_no_negativas [OF assms(1)]
  by (simp add: probabilidades_validas_def)

lemma crear_por_defecto_valida:
  assumes "crear_Probabilidades DEFECTO_prob_local DEFECTO_prob_empate DEFECTO_prob_visita
             = Inr q"
  shows "probabilidades_validas q"
  using crear_por_defecto [OF assms] crear_no_negativas [OF assms]
  by (simp add: probabilidades_validas_def)

lemma calcular_probabilidades_validas:
  assumes "calcular_probabilidades sl sv = Inr q"
  shows "probabilidades_validas q"
proof -
  define rl where "rl = (if pj_local sl < MIN_PARTIDOS_CONFIABLE then DEFECTO_prob_local
                         else rendimiento_local sl)"
  define rv where "rv = (if pj_visita sv < MIN_PARTIDOS_CONFIABLE then DEFECTO_prob_visita
                         else rendimiento_visita sv)"
  define fe where "fe = max 0 (30 - \<bar>rl / (rl + rv) * 100 - rv / (rl + rv) * 100\<bar>)"
  define pl where "pl = rl / (rl + rv) * 100 * (100 - fe) / 100"
  define pv where "pv = rv / (rl + rv) * 100 * (100 - fe) / 100"
  have eq: "calcular_probabilidades sl sv =
      (if rl + rv = 0
       then crear_Probabilidades DEFECTO_prob_local DEFECTO_prob_empate DEFECTO_prob_visita
       else if pl + fe + pv = 0 then Inl ZeroDivisionError
       else crear_Probabilidades (round2 (pl / (pl + fe + pv) * 100))
              (round2 (fe / (pl + fe + pv) * 100)) (round2 (pv / (pl + fe + pv) * 100)))"
    unfolding calcular_probabilidades_def Let_def rl_def rv_def fe_def pl_def pv_def ..
  show ?thesis
  proof (cases "rl + rv = 0")
    case True
    with assms eq show ?thesis by (simp add: crear_por_defecto_valida)
  next
    case False
    with assms eq have ne: "pl + fe + pv \<noteq> 0"
      by (auto split: if_splits)
    with assms eq False have
      "crear_Probabilidades (round2 (pl / (pl + fe + pv) * 100))
         (round2 (fe / (pl + fe + pv) * 100)) (round2 (pv / (pl + fe + pv) * 100)) = Inr q"
      by simp
    then show ?thesis using ne by (rule crear_normalizado_valida) simp
  qed
qed

lemma forma_reciente_validas:
  assumes "ajustar_por_forma_reciente p fl fv = Inr q"
  shows "probabilidades_validas q"
proof -
  define a where "a = max 5 (min 90 (porcentaje_local p
     + ((case forma_rendimiento fl of None \<Rightarrow> 50 | Some r \<Rightarrow> r) - 50) / 50
       * PESO_FORMA_RECIENTE * 10))"
  define c where "c = max 5 (min 90 (porcentaje_visita p
     + ((case forma_rendimiento fv of None \<Rightarrow> 50 | Some r \<Rightarrow> r) - 50) / 50
       * PESO_FORMA_RECIENTE * 10))"
  define b where "b = max 5 (min 50 (100 - a - c))"
  have eq: "ajustar_por_forma_reciente p fl fv =
      (if a + b + c = 0 then Inl ZeroDivisionError
       else crear_Probabilidades (round2 (a / (a + b + c) * 100))
              (round2 (b / (a + b + c) * 100)) (round2 (c / (a + b + c) * 100)))"
    unfolding ajustar_por_forma_reciente_def Let_def a_def b_def c_def ..
  from assms eq have ne: "a + b + c \<noteq> 0" by (auto split: if_splits)
  with assms eq have
    "crear_Probabilidades (round2 (a / (a + b + c) * 100))
       (round2 (b / (a + b + c) * 100)) (round2 (c / (a + b + c) * 100)) = Inr q"
    by simp
  then show ?thesis using ne by (rule crear_normalizado_valida) simp
qed

lemma historico_validas:
  assumes "ajustar_por_historico p fh = Inr q"
  shows "probabilidades_validas q"
proof -
  obtain a0 b c0 where m: "mezclar_h2h (h2h fh)
      (porcentaje_local p, porcentaje_empate p, porcentaje_visita p) = (a0, b, c0)"
    by (cases "mezclar_h2h (h2h fh)
      (porcentaje_local p, porcentaje_empate p, porcentaje_visita p)") auto
  define a where "a = a0 * obtener (historico_factor_local fh) 1"
  define c where "c = c0 * obtener (historico_factor_visita fh) 1"
  have eq: "ajustar_por_historico p fh =
      (if a + b + c = 0 then Inl ZeroDivisionError
       else crear_Probabilidades (round2 (a / (a + b + c) * 100))
              (round2 (b / (a + b + c) * 100)) (round2 (c / (a + b + c) * 100)))"
    unfolding ajustar_por_historico_def m Let_def a_def c_def by simp
  from assms eq have ne: "a + b + c \<noteq> 0" by (auto split: if_splits)
  with assms eq have
    "crear_Probabilidades (round2 (a / (a + b + c) * 100))
       (round2 (b / (a + b + c) * 100)) (round2 (c / (a + b + c) * 100)) = Inr q"
    by simp
  then show ?thesis using ne by (rule crear_normalizado_valida) simp
qed

lemma crear_normalizado_total:
  assumes "0 \<le> a" "0 \<le> b" "0 \<le> c" "0 < a + b + c" "t = a + b + c"
  shows "\<exists>q. crear_Probabilidades (round2 (a / t * 100)) (round2 (b / t * 100))
             (round2 (c / t * 100)) = Inr q"
proof -
  have t: "0 < t" using assms by simp
  have r: "\<And>x. 0 \<le> x \<Longrightarrow> x \<le> t \<Longrightarrow> 0 \<le> x / t * 100 \<and> x / t * 100 \<le> 100"
    using t by (simp add: field_simps)
  have "0 \<le> round2 (a / t * 100) \<and> round2 (a / t * 100) \<le> 100"
    using r [of a] assms by (intro round2_rango) simp_all
  moreover have "0 \<le> round2 (b / t * 100) \<and> round2 (b / t * 100) \<le> 100"
    using r [of b] assms by (intro round2_rango) simp_all
  moreover have "0 \<le> round2 (c / t * 100) \<and> round2 (c / t * 100) \<le> 100"
    using r [of c] assms by (intro round2_rango) simp_all
  ultimately show ?thesis by (simp add: crear_Probabilidades_def)
qed

lemma forma_total: "\<exists>q. ajustar_por_forma_reciente p fl fv = Inr q"
proof -
  define a where "a = max 5 (min 90 (porcentaje_local p
     + ((case forma_rendimiento fl of None \<Rightarrow> 50 | Some r \<Rightarrow> r) - 50) / 50
       * PESO_FORMA_RECIENTE * 10))"
  define c where "c = max 5 (min 90 (porcentaje_visita p
     + ((case forma_rendimiento fv of None \<Rightarrow> 50 | Some r \<Rightarrow> r) - 50) / 50
       * PESO_FORMA_RECIENTE * 10))"
  define b where "b = max 5 (min 50 (100 - a - c))"
  have eq: "ajustar_por_forma_reciente p fl fv =
      (if a + b + c = 0 then Inl ZeroDivisionError
       else crear_Probabilidades (round2 (a / (a + b + c) * 100))
              (round2 (b / (a + b + c) * 100)) (round2 (c / (a + b + c) * 100)))"
    unfolding ajustar_por_forma_reciente_def Let_def a_def b_def c_def ..
  have cinco: "5 \<le> a" "5 \<le> b" "5 \<le> c"
    unfolding a_def b_def c_def by (rule max.cobounded1)+
  have pos: "0 \<le> a" "0 \<le> b" "0 \<le> c" "0 < a + b + c"
    using cinco by linarith+
  have ne: "a + b + c \<noteq> 0" using pos by simp
  show ?thesis
    unfolding eq using ne crear_normalizado_total [OF pos refl] by simp
qed

lemma calcular_total:
  assumes "0 \<le> rendimiento_local sl" and "0 \<le> rendimiento_visita sv"
  shows "\<exists>q. calcular_probabilidades sl sv = Inr q"
proof -
  define rl where "rl = (if pj_local sl < MIN_PARTIDOS_CONFIABLE then DEFECTO_prob_local
                         else rendimiento_local sl)"
  define rv where "rv = (if pj_visita sv < MIN_PARTIDOS_CONFIABLE then DEFECTO_prob_visita
                         else rendimiento_visita sv)"
  define fe where "fe = max 0 (30 - \<bar>rl / (rl + rv) * 100 - rv / (rl + rv) * 100\<bar>)"
  define pl where "pl = rl / (rl + rv) * 100 * (100 - fe) / 100"
  define pv where "pv = rv / (rl + rv) * 100 * (100 - fe) / 100"
  have eq: "calcular_probabilidades sl sv =
      (if rl + rv = 0
       then crear_Probabilidades DEFECTO_prob_local DEFECTO_prob_empate DEFECTO_prob_visita
       else if pl + fe + pv = 0 then Inl ZeroDivisionError
       else crear_Probabilidades (round2 (pl / (pl + fe + pv) * 100))
              (round2 (fe / (pl + fe + pv) * 100)) (round2 (pv / (pl + fe + pv) * 100)))"
    unfolding calcular_probabilidades_def Let_def rl_def rv_def fe_def pl_def pv_def ..
  have rl0: "0 \<le> rl" and rv0: "0 \<le> rv"
    using assms by (simp_all add: rl_def rv_def config_defs)
  show ?thesis
  proof (cases "rl + rv = 0")
    case True
    then show ?thesis unfolding eq by (simp add: crear_Probabilidades_def config_defs)
  next
    case False
    then have t: "0 < rl + rv" using rl0 rv0 by simp
    have fe0: "0 \<le> fe" and fe30: "fe \<le> 30" unfolding fe_def by simp_all
    have pl0: "0 \<le> pl" unfolding pl_def using rl0 t fe30 by simp
    have pv0: "0 \<le> pv" unfolding pv_def using rv0 t fe30 by simp
    define u where "u = rl + rv"
    have u: "0 < u" using t by (simp add: u_def)
    have "pl = rl / u * 100 * (100 - fe) / 100" and "pv = rv / u * 100 * (100 - fe) / 100"
      unfolding pl_def pv_def u_def by (rule refl)+
    then have "pl = rl / u * (100 - fe)" and "pv = rv / u * (100 - fe)"
      by simp_all
    then have "pl + pv = (rl / u + rv / u) * (100 - fe)"
      by (simp add: distrib_right)
    also have "rl / u + rv / u = u / u"
      by (simp only: u_def add_divide_distrib)
    also have "u / u = 1" using u by simp
    finally have s: "pl + fe + pv = 100" by simp
    have pos: "0 < pl + fe + pv" using s by simp
    show ?thesis
      unfolding eq using False s crear_normalizado_total [OF pl0 fe0 pv0 pos refl] by simp
  qed
qed

lemma historico_total:
  assumes "mezclar_h2h (h2h fh)
             (porcentaje_local p, porcentaje_empate p, porcentaje_visita p) = (a0, b, c0)"
      and "0 \<le> a0 * obtener (historico_factor_local fh) 1" and "0 \<le> b"
      and "0 \<le> c0 * obtener (historico_factor_visita fh) 1"
      and "0 < a0 * obtener (historico_factor_local fh) 1 + b
               + c0 * obtener (historico_factor_visita fh) 1"
  shows "\<exists>q. ajustar_por_historico p fh = Inr q"
proof -
  define a where "a = a0 * obtener (historico_factor_local fh) 1"
  define c where "c = c0 * obtener (historico_factor_visita fh) 1"
  have eq: "ajustar_por_historico p fh =
      (if a + b + c = 0 then Inl ZeroDivisionError
       else crear_Probabilidades (round2 (a / (a + b + c) * 100))
              (round2 (b / (a + b + c) * 100)) (round2 (c / (a + b + c) * 100)))"
    unfolding ajustar_por_historico_def assms(1) Let_def a_def c_def by simp
  have pos: "0 \<le> a" "0 \<le> b" "0 \<le> c" "0 < a + b + c"
    using assms(2-5) unfolding a_def c_def by simp_all
  have ne: "a + b + c \<noteq> 0" using pos by simp
  show ?thesis
    unfolding eq using ne crear_normalizado_total [OF pos refl] by simp
qed

text \<open>
  C2. Whatever the statistics, the recent form and the historical factors, every
  probability triple returned by the base computation, by the recent-form adjustment and
  by the historical adjustment has components that add up to 100 within the tolerance of
  0.05: each of the three renormalises and rounds to two decimals before it returns.
  (That they do return on well-formed inputs is \<open>calcular_total\<close>, \<open>forma_total\<close> and
  \<open>historico_total\<close>.)
\<close>

theorem probabilidades_suman_cien:
  "(calcular_probabilidades stats_local stats_visitante = Inr q1 \<longrightarrow> suma_cien q1)
   \<and> (ajustar_por_forma_reciente p forma_local forma_visitante = Inr q2 \<longrightarrow> suma_cien q2)
   \<and> (ajustar_por_historico p factores = Inr q3 \<longrightarrow> suma_cien q3)"
  using calcular_probabilidades_suma forma_suma historico_suma by blast

theorem probabilidades_suman_cien_witness:
  "(\<exists>q1. calcular_probabilidades stats_local_ejemplo stats_visitante_ejemplo = Inr q1
         \<and> suma_cien q1)
   \<and> (\<exists>q2. ajustar_por_forma_reciente probabilidades_ejemplo
              (forma_ejemplo (Some 80)) (forma_ejemplo None) = Inr q2 \<and> suma_cien q2)
   \<and> (\<exists>q3. ajustar_por_historico probabilidades_ejemplo factores_ejemplo = Inr q3
         \<and> suma_cien q3)"
proof -
  obtain q1 where q1: "calcular_probabilidades stats_local_ejemplo stats_visitante_ejemplo
      = Inr q1"
    using calcular_total [of stats_local_ejemplo stats_visitante_ejemplo]
    by (auto simp: stats_local_ejemplo_def stats_visitante_ejemplo_def stats_por_defecto_def)
  obtain q2 where q2: "ajustar_por_forma_reciente probabilidades_ejemplo
              (forma_ejemplo (Some 80)) (forma_ejemplo None) = Inr q2"
    using forma_total by blast
  have m: "mezclar_h2h (h2h factores_ejemplo)
             (porcentaje_local probabilidades_ejemplo, porcentaje_empate probabilidades_ejemplo,
              porcentaje_visita probabilidades_ejemplo) = (54, 10, 36)"
    by (simp add: mezclar_h2h_def factores_ejemplo_def probabilidades_ejemplo_def)
  obtain q3 where q3: "ajustar_por_historico probabilidades_ejemplo factores_ejemplo = Inr q3"
    using historico_total [OF m]
    by (auto simp: factores_ejemplo_def obtener_def)
  show ?thesis
    using q1 q2 q3
      probabilidades_suman_cien [of stats_local_ejemplo stats_visitante_ejemplo q1 probabilidades_ejemplo
             "forma_ejemplo (Some 80)" "forma_ejemplo None" q2 factores_ejemplo q3]
    by simp
qed


section \<open>Season weights\<close>

lemma paso_no_ultimo:
  "i \<noteq> n - 1 \<Longrightarrow> paso_pesos n (ps, r) i = (ps @ [r * (6 / 10)], r - r * (6 / 10))"
  by (simp add: paso_pesos_def Let_def)

lemma paso_ultimo: "paso_pesos n (ps, r) (n - 1) = (ps @ [r], r)"
  by (simp add: paso_pesos_def)

lemma inv_pesos_prefijo:
  "1 \<le> m \<Longrightarrow> m \<le> n - 1 \<Longrightarrow>
   inv_pesos m (foldl (paso_pesos n) ([PESO_TEMPORADA_ACTUAL], PESO_HISTORICO) [1..<m])"
proof (induction m)
  case 0
  then show ?case by simp
next
  case (Suc m)
  show ?case
  proof (cases "m = 0")
    case True
    then show ?thesis
      by (simp add: inv_pesos_def PESO_TEMPORADA_ACTUAL_def PESO_HISTORICO_def)
  next
    case False
    then have m1: "1 \<le> m" by simp
    from Suc.prems have mn: "m \<le> n - 1" and ne: "m \<noteq> n - 1" by simp_all
    obtain ps r where st:
      "foldl (paso_pesos n) ([PESO_TEMPORADA_ACTUAL], PESO_HISTORICO) [1..<m] = (ps, r)"
      by (cases "foldl (paso_pesos n) ([PESO_TEMPORADA_ACTUAL], PESO_HISTORICO) [1..<m]")
    from Suc.IH [OF m1 mn] st have iv: "inv_pesos m (ps, r)" by simp
    have up: "[1..<Suc m] = [1..<m] @ [m]" using m1 by simp
    have nxt: "foldl (paso_pesos n) ([PESO_TEMPORADA_ACTUAL], PESO_HISTORICO) [1..<Suc m]
                 = (ps @ [r * (6 / 10)], r - r * (6 / 10))"
      unfolding up foldl_append st by (simp add: paso_no_ultimo [OF ne])
    from iv have len: "length ps = m" and r: "r = 1 - sum_list ps" and h: "ps ! 0 = 7 / 10"
      and mid: "\<And>i. 1 \<le> i \<Longrightarrow> i < m \<Longrightarrow> ps ! i = 6 / 10 * (1 - sum_list (take i ps))"
      by (simp_all add: inv_pesos_def)
    have "inv_pesos (Suc m) (ps @ [r * (6 / 10)], r - r * (6 / 10))"
      unfolding inv_pesos_def
    proof (simp only: prod.case, intro conjI allI impI)
      show "length (ps @ [r * (6 / 10)]) = Suc m" using len by simp
      show "r - r * (6 / 10) = 1 - sum_list (ps @ [r * (6 / 10)])" using r by simp
      show "(ps @ [r * (6 / 10)]) ! 0 = 7 / 10" using h len m1 by (simp add: nth_append)
    next
      fix i assume i: "1 \<le> i \<and> i < Suc m"
      show "(ps @ [r * (6 / 10)]) ! i = 6 / 10 * (1 - sum_list (take i (ps @ [r * (6 / 10)])))"
      proof (cases "i < m")
        case True
        then show ?thesis using mid [of i] i len by (simp add: nth_append)
      next
        case False
        then have "i = m" using i by simp
        then show ?thesis using len r by (simp add: nth_append)
      qed
    qed
    then show ?thesis by (simp only: nxt)
  qed
qed

lemma pesos_ge2:
  assumes "2 \<le> n"
  shows "\<exists>ps r. inv_pesos (n - 1) (ps, r) \<and> calcular_pesos n = ps @ [r]"
proof -
  have n1: "1 \<le> n - 1" using assms by simp
  obtain ps r where st:
    "foldl (paso_pesos n) ([PESO_TEMPORADA_ACTUAL], PESO_HISTORICO) [1..<n - 1] = (ps, r)"
    by (cases "foldl (paso_pesos n) ([PESO_TEMPORADA_ACTUAL], PESO_HISTORICO) [1..<n - 1]")
  have iv: "inv_pesos (n - 1) (ps, r)"
    using inv_pesos_prefijo [OF n1, of n] st by simp
  have "[1..<Suc (n - 1)] = [1..<n - 1] @ [n - 1]"
    using n1 by (rule upt_Suc_append)
  moreover have "Suc (n - 1) = n" using assms by simp
  ultimately have up: "[1..<n] = [1..<n - 1] @ [n - 1]" by simp
  have "calcular_pesos n = ps @ [r]"
  proof -
    have "n \<noteq> 1" using assms by simp
    then have "calcular_pesos n
        = fst (foldl (paso_pesos n) ([PESO_TEMPORADA_ACTUAL], PESO_HISTORICO) [1..<n])"
      by (simp add: calcular_pesos_def)
    also have "\<dots> = ps @ [r]"
      unfolding up foldl_append st by (simp add: paso_pesos_def)
    finally show ?thesis .
  qed
  with iv show ?thesis by blast
qed

text \<open>
  C9, amended. For one season the weight vector is \<open>[1.0]\<close>. For n of at least two seasons
  it has n weights: 0.70 for the most recent season; each older season but the last gets
  60% of what is still unassigned of the remaining 0.30; the last gets what remains. For
  every n of at least one the weights add up to 1.
\<close>

theorem pesos_por_temporada:
  assumes "1 \<le> n"
  shows "length (calcular_pesos n) = n
       \<and> sum_list (calcular_pesos n) = 1
       \<and> (if n = 1 then calcular_pesos n = [1]
          else calcular_pesos n ! 0 = 7 / 10
             \<and> (\<forall>i. 1 \<le> i \<and> i < n - 1 \<longrightarrow>
                   calcular_pesos n ! i
                     = 6 / 10 * (3 / 10 - sum_list (take (i - 1) (tl (calcular_pesos n)))))
             \<and> calcular_pesos n ! (n - 1)
                 = 3 / 10 - sum_list (take (n - 2) (tl (calcular_pesos n))))"
proof (cases "n = 1")
  case True
  then show ?thesis by (simp add: calcular_pesos_def)
next
  case False
  with assms have n2: "2 \<le> n" by simp
  from pesos_ge2 [OF n2] obtain ps r where iv: "inv_pesos (n - 1) (ps, r)"
    and w: "calcular_pesos n = ps @ [r]" by blast
  from iv have len: "length ps = n - 1" and r: "r = 1 - sum_list ps" and h: "ps ! 0 = 7 / 10"
    and mid: "\<And>i. 1 \<le> i \<Longrightarrow> i < n - 1 \<Longrightarrow> ps ! i = 6 / 10 * (1 - sum_list (take i ps))"
    by (simp_all add: inv_pesos_def)
  from len n2 obtain p0 qs where ps: "ps = p0 # qs" by (cases ps) auto
  have p0: "p0 = 7 / 10" using h ps by simp
  have lq: "length qs = n - 2" using len ps by simp
  have tk: "\<And>i. 1 \<le> i \<Longrightarrow> sum_list (take i ps) = 7 / 10 + sum_list (take (i - 1) qs)"
    unfolding ps p0 by (case_tac i) simp_all
  have a: "length (calcular_pesos n) = n" using w len n2 by simp
  have b: "sum_list (calcular_pesos n) = 1" using w r by simp
  have c: "calcular_pesos n ! 0 = 7 / 10" using w ps p0 by simp
  have d: "\<forall>i. 1 \<le> i \<and> i < n - 1 \<longrightarrow>
             calcular_pesos n ! i
               = 6 / 10 * (3 / 10 - sum_list (take (i - 1) (tl (calcular_pesos n))))"
  proof (intro allI impI)
    fix i assume i: "1 \<le> i \<and> i < n - 1"
    then have "calcular_pesos n ! i = ps ! i" using w len by (simp add: nth_append)
    also have "\<dots> = 6 / 10 * (1 - sum_list (take i ps))" using mid i by simp
    also have "\<dots> = 6 / 10 * (3 / 10 - sum_list (take (i - 1) qs))"
      using tk [of i] i by simp
    also have "take (i - 1) qs = take (i - 1) (tl (calcular_pesos n))"
    proof -
      have "i - 1 \<le> length qs" using lq i by arith
      then show ?thesis using w ps by simp
    qed
    finally show "calcular_pesos n ! i
               = 6 / 10 * (3 / 10 - sum_list (take (i - 1) (tl (calcular_pesos n))))" .
  qed
  have e: "calcular_pesos n ! (n - 1)
             = 3 / 10 - sum_list (take (n - 2) (tl (calcular_pesos n)))"
  proof -
    have "calcular_pesos n ! (n - 1) = r" using w len by (simp add: nth_append)
    also have "\<dots> = 3 / 10 - sum_list qs" using r ps p0 by simp
    also have "qs = take (n - 2) (tl (calcular_pesos n))" using w ps lq by simp
    finally show ?thesis .
  qed
  show ?thesis using False a b c d e by simp
qed

theorem pesos_por_temporada_witness:
  "(1::nat) \<le> 3 \<and> calcular_pesos 3 = [70 / 100, 18 / 100, 12 / 100]
   \<and> sum_list (calcular_pesos 3) = 1 \<and> length (calcular_pesos 3) = 3
   \<and> calcular_pesos 3 ! 1 = 6 / 10 * (3 / 10)
   \<and> calcular_pesos 3 ! 2 = 3 / 10 - 18 / 100"
proof -
  have v: "calcular_pesos 3 = [70 / 100, 18 / 100, 12 / 100]"
    by (simp add: calcular_pesos_def paso_pesos_def PESO_TEMPORADA_ACTUAL_def
        PESO_HISTORICO_def upt_rec Let_def)
  have h: "(1::nat) \<le> 3" by simp
  show ?thesis using pesos_por_temporada [OF h] v by simp
qed

text \<open>
  The claim as stated fails for a single season: the most recent season then carries the
  weight 1.0, not 0.70.
\<close>

theorem una_temporada_pesa_uno:
  "calcular_pesos 1 = [1] \<and> calcular_pesos 1 ! 0 \<noteq> 70 / 100"
  by (simp add: calcular_pesos_def)

section \<open>The statistics fold\<close>

lemma luego_Inr [simp]: "luego (Inr x) f = f x"
  by (simp add: luego_def)

lemma luego_Inl [simp]: "luego (Inl e) f = Inl e"
  by (simp add: luego_def)

lemma luego_es_Inr: "(luego m f = Inr y) = (\<exists>x. m = Inr x \<and> f x = Inr y)"
  by (cases m) simp_all

lemma sumar_es_Inr:
  "(sumar campo campo_update delta s = Inr s')
     = (0 \<le> campo s + delta \<and> s' = campo_update (\<lambda>x. x + delta) s)"
  by (auto simp: sumar_def)

lemma local_cuadra:
  assumes "actualizar_equipo_local gl gv s = Inr s'" and "cuadra s"
  shows "cuadra s'"
  using assms
  by (auto simp: actualizar_equipo_local_def resultado_partido_def luego_es_Inr sumar_es_Inr
      sin_validar_def cuadra_def config_defs split: if_splits)

lemma visitante_cuadra:
  assumes "actualizar_equipo_visitante gl gv s = Inr s'" and "cuadra s"
  shows "cuadra s'"
  using assms
  by (auto simp: actualizar_equipo_visitante_def resultado_partido_def luego_es_Inr sumar_es_Inr
      sin_validar_def cuadra_def config_defs split: if_splits)

lemma falla_2mt: "actualizar_equipo_local (- 1) 0 stats_por_defecto = Inl ValidationError"
  by (simp add: actualizar_equipo_local_def resultado_partido_def sumar_def
      stats_por_defecto_def config_defs)

lemma preservaD: "preserva P f \<Longrightarrow> f s = Inr s' \<Longrightarrow> P s \<Longrightarrow> P s'"
  unfolding preserva_def by blast

lemma secuencia_preserva:
  assumes "\<And>f. f \<in> set fs \<Longrightarrow> preserva P f"
  shows "preserva P (secuencia fs)"
  using assms
proof (induction fs)
  case Nil
  show ?case by (simp add: preserva_def)
next
  case (Cons f fs)
  have f: "preserva P f" and r: "preserva P (secuencia fs)"
    using Cons by simp_all
  show ?case
    unfolding preserva_def
  proof (intro allI impI)
    fix s s' assume "secuencia (f # fs) s = Inr s'" and p: "P s"
    then obtain s1 where 1: "f s = Inr s1" and 2: "secuencia fs s1 = Inr s'"
      by (auto simp: luego_es_Inr)
    from preservaD [OF f 1 p] have "P s1" .
    from preservaD [OF r 2 this] show "P s'" .
  qed
qed

lemma si_preserva:
  assumes "\<And>f. f \<in> set cuerpo \<Longrightarrow> preserva P f"
  shows "preserva P (si condicion cuerpo)"
  using secuencia_preserva [of cuerpo P, OF assms]
  unfolding preserva_def si_def by (auto split: if_splits)

lemma asignar_porcentaje_preserva:
  assumes "\<And>s x. P (campo_update (\<lambda>_. x) s) = P s"
  shows "preserva P (asignar_porcentaje campo_update valor)"
  using assms unfolding preserva_def asignar_porcentaje_def by (auto split: if_splits)

lemma asignar_no_negativo_preserva:
  assumes "\<And>s x. P (campo_update (\<lambda>_. x) s) = P s"
  shows "preserva P (asignar_no_negativo campo_update valor)"
  using assms unfolding preserva_def asignar_no_negativo_def by (auto split: if_splits)

lemma derivados_cuadra: "preserva cuadra calcular_derivados"
  unfolding calcular_derivados_def
  by (intro secuencia_preserva si_preserva)
     (auto intro!: asignar_porcentaje_preserva asignar_no_negativo_preserva si_preserva
           simp: cuadra_def)

lemma cuadra_por_defecto: "cuadra stats_por_defecto"
  by (simp add: cuadra_def stats_por_defecto_def)

lemma crear_Equipo_cuadra: "crear_Equipo n l t s = Inr eq \<Longrightarrow> equipo_cuadra eq"
  by (auto simp: crear_Equipo_def equipo_cuadra_def cuadra_por_defecto split: if_splits)

lemma obtener_stats_cuadra: "equipo_cuadra eq \<Longrightarrow> cuadra (obtener_stats eq tt)"
  by (cases tt) (simp_all add: equipo_cuadra_def)

lemma poner_stats_cuadra: "equipo_cuadra eq \<Longrightarrow> cuadra s \<Longrightarrow> equipo_cuadra (poner_stats tt s eq)"
  by (cases tt) (simp_all add: equipo_cuadra_def)

lemma cache_cuadra_map_of:
  "cache_cuadra c \<Longrightarrow> map_of c k = Some eq \<Longrightarrow> equipo_cuadra eq"
  unfolding cache_cuadra_def
  by (induction c) (auto split: if_splits)

lemma leer_cuadra: "cache_cuadra c \<Longrightarrow> leer_stats c r = Inr s \<Longrightarrow> cuadra s"
  unfolding leer_stats_def
  by (auto split: option.splits dest: cache_cuadra_map_of intro: obtener_stats_cuadra)

lemma escribir_cuadra: "cache_cuadra c \<Longrightarrow> cuadra s \<Longrightarrow> cache_cuadra (escribir_stats c r s)"
  unfolding escribir_stats_def cache_cuadra_def
  by (induction c) (auto simp: poner_stats_cuadra)

lemma obtener_o_crear_cuadra:
  "cache_cuadra c \<Longrightarrow> obtener_o_crear_equipo c n l t s = Inr (c', k) \<Longrightarrow> cache_cuadra c'"
  unfolding obtener_o_crear_equipo_def Let_def
  by (auto simp: luego_es_Inr cache_cuadra_def split: if_splits dest: crear_Equipo_cuadra)

lemma actualizar_stats_cuadra:
  assumes "cache_cuadra c" and "actualizar_stats c rl rv gl gv = Inr c'"
  shows "cache_cuadra c'"
proof -
  from assms(2) obtain s s' t t' where
    1: "leer_stats c rl = Inr s" and 2: "actualizar_equipo_local gl gv s = Inr s'"
    and 3: "leer_stats (escribir_stats c rl s') rv = Inr t"
    and 4: "actualizar_equipo_visitante gl gv t = Inr t'"
    and 5: "c' = escribir_stats (escribir_stats c rl s') rv t'"
    unfolding actualizar_stats_def Let_def by (auto simp: luego_es_Inr)
  have "cuadra s" using assms(1) 1 by (rule leer_cuadra)
  with 2 have "cuadra s'" by (rule local_cuadra)
  with assms(1) have c1: "cache_cuadra (escribir_stats c rl s')" by (rule escribir_cuadra)
  then have "cuadra t" using 3 by (rule leer_cuadra)
  with 4 have "cuadra t'" by (rule visitante_cuadra)
  with c1 show ?thesis unfolding 5 by (rule escribir_cuadra)
qed

lemma procesar_partido_cuadra:
  assumes "cache_cuadra c" and "procesar_partido c p l t s = Inr c'"
  shows "cache_cuadra c'"
proof -
  from assms(2) obtain nl nv c1 kl c2 kv c3 c4 g1 g2 g3 g4 g5 g6 where
    a: "obtener_o_crear_equipo c nl l t s = Inr (c1, kl)"
    and b: "obtener_o_crear_equipo c1 nv l t s = Inr (c2, kv)"
    and d: "actualizar_stats c2 (kl, COMPLETO) (kv, COMPLETO) g1 g2 = Inr c3"
    and e: "actualizar_stats c3 (kl, PRIMER_TIEMPO) (kv, PRIMER_TIEMPO) g3 g4 = Inr c4"
    and f: "actualizar_stats c4 (kl, SEGUNDO_TIEMPO) (kv, SEGUNDO_TIEMPO) g5 g6 = Inr c'"
    unfolding procesar_partido_def Let_def
    by (auto simp: luego_es_Inr split: option.splits)
  from assms(1) a have "cache_cuadra c1" by (rule obtener_o_crear_cuadra)
  then have "cache_cuadra c2" using b by (rule obtener_o_crear_cuadra)
  then have "cache_cuadra c3" using d by (rule actualizar_stats_cuadra)
  then have "cache_cuadra c4" using e by (rule actualizar_stats_cuadra)
  then show ?thesis using f by (rule actualizar_stats_cuadra)
qed

lemma procesar_partidos_cuadra:
  "cache_cuadra c \<Longrightarrow> procesar_partidos c ps l t s = Inr c' \<Longrightarrow> cache_cuadra c'"
proof (induction ps arbitrary: c)
  case Nil
  then show ?case by simp
next
  case (Cons p ps)
  from Cons.prems(2) obtain c1 where 1: "procesar_partido c p l t s = Inr c1"
    and 2: "procesar_partidos c1 ps l t s = Inr c'"
    by (auto simp: luego_es_Inr)
  from Cons.prems(1) 1 have "cache_cuadra c1" by (rule procesar_partido_cuadra)
  then show ?case using 2 by (rule Cons.IH)
qed

lemma derivar_equipo_cuadra:
  assumes "equipo_cuadra eq" and "derivar_equipo eq = Inr eq'"
  shows "equipo_cuadra eq'"
proof -
  from assms(2) obtain a b c where
    1: "calcular_derivados (stats_completo eq) = Inr a"
    and 2: "calcular_derivados (stats_primer_tiempo eq) = Inr b"
    and 3: "calcular_derivados (stats_segundo_tiempo eq) = Inr c"
    and 4: "eq' = eq\<lparr>stats_completo := a, stats_primer_tiempo := b, stats_segundo_tiempo := c\<rparr>"
    unfolding derivar_equipo_def by (auto simp: luego_es_Inr)
  have "cuadra a" "cuadra b" "cuadra c"
    using assms(1) preservaD [OF derivados_cuadra 1] preservaD [OF derivados_cuadra 2]
      preservaD [OF derivados_cuadra 3]
    by (simp_all add: equipo_cuadra_def)
  then show ?thesis unfolding 4 by (simp add: equipo_cuadra_def)
qed

lemma derivar_todos_cuadra:
  "cache_cuadra c \<Longrightarrow> derivar_todos c = Inr c' \<Longrightarrow> cache_cuadra c'"
proof (induction c arbitrary: c')
  case Nil
  then show ?case by simp
next
  case (Cons x c)
  obtain k eq where x: "x = (k, eq)" by (cases x)
  from Cons.prems(2) obtain eq' r' where 1: "derivar_equipo eq = Inr eq'"
    and 2: "derivar_todos c = Inr r'" and 3: "c' = (k, eq') # r'"
    unfolding x by (auto simp: luego_es_Inr)
  from Cons.prems(1) have e: "equipo_cuadra eq" and r: "cache_cuadra c"
    unfolding x by (simp_all add: cache_cuadra_def)
  from e 1 have "equipo_cuadra eq'" by (rule derivar_equipo_cuadra)
  moreover from r 2 have "cache_cuadra r'" by (rule Cons.IH)
  ultimately show ?case unfolding 3 by (simp add: cache_cuadra_def)
qed

text \<open>
  C4. For every sequence of match records that StatsBuilder folds, from the empty cache,
  every team in the resulting cache satisfies, in each of its three time scopes,
  victorias + empates + derrotas = partidos_jugados, v_local + e_local + d_local =
  pj_local, v_visita + e_visita + d_visita = pj_visita and puntos = victorias * 3 +
  empates * 1; the same holds of what \<open>construir_estadisticas\<close> returns after the derived
  fields are computed.
\<close>

theorem estadisticas_cuadran:
  "(procesar_partidos [] partidos l t s = Inr c \<longrightarrow> cache_cuadra c)
   \<and> (construir_estadisticas l t s partidos = Inr c' \<longrightarrow> cache_cuadra c')"
proof (intro conjI impI)
  have vacia: "cache_cuadra []" by (simp add: cache_cuadra_def)
  show "cache_cuadra c" if "procesar_partidos [] partidos l t s = Inr c"
    using vacia that by (rule procesar_partidos_cuadra)
  show "cache_cuadra c'" if "construir_estadisticas l t s partidos = Inr c'"
  proof -
    from that obtain c0 where 1: "procesar_partidos [] partidos l t s = Inr c0"
      and 2: "derivar_todos c0 = Inr c'"
      unfolding construir_estadisticas_def by (auto simp: luego_es_Inr split: if_splits)
    from vacia 1 have "cache_cuadra c0" by (rule procesar_partidos_cuadra)
    then show ?thesis using 2 by (rule derivar_todos_cuadra)
  qed
qed

lemmas evaluar_fold =
  procesar_partido_def obtener_o_crear_equipo_def crear_Equipo_def actualizar_stats_def
  leer_stats_def escribir_stats_def actualizar_equipo_local_def actualizar_equipo_visitante_def
  resultado_partido_def sumar_def sin_validar_def obtener_def stats_por_defecto_def
  config_defs Let_def

lemma bueno: "\<exists>c. procesar_partido [] partido_bueno ''LIGA'' 2023 None = Inr c"
  by (simp add: evaluar_fold partido_bueno_def)

lemma sin_local: "procesar_partido c partido_sin_local l t s = Inl (KeyError ''equipo_local'')"
  by (simp add: procesar_partido_def partido_sin_local_def)

theorem estadisticas_cuadran_witness:
  "\<exists>c. procesar_partidos [] [partido_bueno, partido_bueno] ''LIGA'' 2023 None = Inr c
       \<and> cache_cuadra c
       \<and> (\<exists>c'. construir_estadisticas ''LIGA'' 2023 None [partido_bueno, partido_bueno] = Inr c'
              \<and> cache_cuadra c')"
proof -
  obtain c where 1: "procesar_partidos [] [partido_bueno, partido_bueno] ''LIGA'' 2023 None = Inr c"
    by (simp add: evaluar_fold partido_bueno_def)
  obtain c' where 2: "derivar_todos c = Inr c'"
    using 1
    by (auto simp: evaluar_fold partido_bueno_def derivar_equipo_def calcular_derivados_def
        si_def asignar_porcentaje_def asignar_no_negativo_def round2_def redondear_entero_def)
  have 3: "construir_estadisticas ''LIGA'' 2023 None [partido_bueno, partido_bueno] = Inr c'"
    using 1 2 by (simp add: construir_estadisticas_def)
  from estadisticas_cuadran [of "[partido_bueno, partido_bueno]" "''LIGA''" 2023 None c c'] 1 3
  show ?thesis by simp
qed


text \<open>
  C10. There is a match record whose first-half home goals exceed its full-time home
  goals (1 against 0) on which the fold is not total: the derived second-half goals are
  negative (-1), adding them to the fresh second-half counter \<open>goles_favor\<close> is rejected
  by the non-negative constraint checked on assignment, and the fold of that match, and
  with it the build, ends in the validation error instead of a statistics state.
\<close>

theorem segundo_tiempo_negativo_falla:
  "goles_local_1MT partido_inconsistente = Some 1
   \<and> goles_local_TR partido_inconsistente = Some 0
   \<and> actualizar_equipo_local (0 - 1) (0 - 0) stats_por_defecto = Inl ValidationError
   \<and> procesar_partido [] partido_inconsistente ''LIGA'' 2023 None = Inl ValidationError
   \<and> construir_estadisticas ''LIGA'' 2023 None [partido_inconsistente] = Inl ValidationError"
proof -
  have p: "procesar_partido [] partido_inconsistente ''LIGA'' 2023 None = Inl ValidationError"
    by (simp add: evaluar_fold partido_inconsistente_def)
  have f: "actualizar_equipo_local (0 - 1) (0 - 0) stats_por_defecto = Inl ValidationError"
    using falla_2mt by simp
  show ?thesis
    using p f by (simp add: construir_estadisticas_def partido_inconsistente_def)
qed

section \<open>A failing record in a build\<close>

lemma bueno_claves:
  "\<exists>c. procesar_partido [] partido_bueno ''LIGA'' 2023 None = Inr c
       \<and> map fst c = [''LIGA_Alfa'', ''LIGA_Beta'']"
  by (simp add: evaluar_fold partido_bueno_def)

text \<open>
  C7 as stated fails: with a record that lacks the home team's name first in the batch,
  the build returns the \<open>KeyError\<close> and folds nothing, where the isolation the claim
  describes would count one error and still fold the second record's two teams.
\<close>

theorem fallo_no_se_aisla:
  "construir_estadisticas ''LIGA'' 2023 None [partido_sin_local, partido_bueno]
     = Inl (KeyError ''equipo_local'')
   \<and> snd (procesar_aislando_spec [] 0 [partido_sin_local, partido_bueno] ''LIGA'' 2023 None) = 1
   \<and> map fst (fst (procesar_aislando_spec [] 0 [partido_sin_local, partido_bueno]
                     ''LIGA'' 2023 None)) = [''LIGA_Alfa'', ''LIGA_Beta'']"
proof -
  from bueno_claves obtain c where
    b: "procesar_partido [] partido_bueno ''LIGA'' 2023 None = Inr c"
    and k: "map fst c = [''LIGA_Alfa'', ''LIGA_Beta'']" by auto
  show ?thesis
    by (simp add: construir_estadisticas_def sin_local b k)
qed

lemma procesar_partidos_append:
  "procesar_partidos c (xs @ ys) l t s
     = luego (procesar_partidos c xs l t s) (\<lambda>c'. procesar_partidos c' ys l t s)"
proof (induction xs arbitrary: c)
  case Nil
  show ?case by simp
next
  case (Cons x xs)
  show ?case by (cases "procesar_partido c x l t s") (simp_all add: Cons.IH)
qed

text \<open>
  C7, amended. During a statistics build a per-match failure is not caught: when the
  records before it fold and the record itself raises (a missing team name raises
  \<open>KeyError\<close>), \<open>construir_estadisticas\<close> ends with that very exception, whatever records
  follow; there is no error counter and the later records are not folded.
\<close>

theorem fallo_de_partido_aborta:
  assumes "procesar_partidos [] antes l t s = Inr c"
      and "procesar_partido c partido l t s = Inl err"
  shows "construir_estadisticas l t s (antes @ partido # despues) = Inl err"
  using assms by (simp add: construir_estadisticas_def procesar_partidos_append)

theorem fallo_de_partido_aborta_witness:
  "(\<exists>c. procesar_partidos [] [partido_bueno] ''LIGA'' 2023 None = Inr c
        \<and> procesar_partido c partido_sin_local ''LIGA'' 2023 None
            = Inl (KeyError ''equipo_local''))
   \<and> construir_estadisticas ''LIGA'' 2023 None
        ([partido_bueno] @ partido_sin_local # [partido_bueno]) = Inl (KeyError ''equipo_local'')"
proof -
  from bueno obtain c where b: "procesar_partido [] partido_bueno ''LIGA'' 2023 None = Inr c"
    by auto
  then have 1: "procesar_partidos [] [partido_bueno] ''LIGA'' 2023 None = Inr c" by simp
  have 2: "procesar_partido c partido_sin_local ''LIGA'' 2023 None
             = Inl (KeyError ''equipo_local'')" by (rule sin_local)
  from fallo_de_partido_aborta [OF 1 2, of "[partido_bueno]"] 1 2 show ?thesis by simp
qed


section \<open>The classification table\<close>

lemma clave_orden_le: "(clave_orden a \<le> clave_orden b) = mejor_o_igual a b"
  unfolding clave_orden_def mejor_o_igual_def
  by (auto simp: less_eq_prod_def less_prod_def)

lemma crear_fila_datos:
  "crear_fila eq tt = Inr f \<Longrightarrow>
   (equipo f, pts f, dif f, gf f)
     = (nombre eq, puntos (obtener_stats eq tt), diferencia_goles (obtener_stats eq tt),
        goles_favor (obtener_stats eq tt))"
  by (auto simp: crear_fila_def Let_def split: if_splits)

lemma crear_filas_ok:
  "list_all (\<lambda>eq. stats_en_rango (obtener_stats eq tt)) equipos \<Longrightarrow>
   \<exists>filas. crear_filas equipos tt = Inr filas
      \<and> map (\<lambda>f. (equipo f, pts f, dif f, gf f)) filas
          = map (\<lambda>eq. (nombre eq, puntos (obtener_stats eq tt),
                        diferencia_goles (obtener_stats eq tt),
                        goles_favor (obtener_stats eq tt))) equipos"
proof (induction equipos)
  case Nil
  then show ?case by simp
next
  case (Cons eq equipos)
  then obtain filas where 1: "crear_filas equipos tt = Inr filas"
    and 2: "map (\<lambda>f. (equipo f, pts f, dif f, gf f)) filas
          = map (\<lambda>eq. (nombre eq, puntos (obtener_stats eq tt),
                        diferencia_goles (obtener_stats eq tt),
                        goles_favor (obtener_stats eq tt))) equipos" by auto
  from Cons.prems obtain f where 3: "crear_fila eq tt = Inr f"
    by (auto simp: crear_fila_def Let_def)
  from crear_fila_datos [OF 3] 1 2 3 show ?case by simp
qed

lemma asignar_posiciones_length [simp]: "length (asignar_posiciones i fs) = length fs"
  by (induction fs arbitrary: i) simp_all

lemma asignar_posiciones_nth:
  "k < length fs \<Longrightarrow> asignar_posiciones i fs ! k = (fs ! k)\<lparr>posicion := i + int k\<rparr>"
proof (induction fs arbitrary: i k)
  case Nil
  then show ?case by simp
next
  case (Cons f fs)
  show ?case
  proof (cases k)
    case 0
    then show ?thesis by simp
  next
    case (Suc m)
    with Cons.prems have "m < length fs" by simp
    from Cons.IH [OF this, of "i + 1"] Suc show ?thesis by simp
  qed
qed

lemma asignar_posiciones_datos [simp]:
  "map (\<lambda>f. (equipo f, pts f, dif f, gf f)) (asignar_posiciones i fs)
     = map (\<lambda>f. (equipo f, pts f, dif f, gf f)) fs"
  by (induction fs arbitrary: i) simp_all

lemma mejor_o_igual_posicion [simp]:
  "mejor_o_igual (a\<lparr>posicion := i\<rparr>) (b\<lparr>posicion := j\<rparr>) = mejor_o_igual a b"
  by (simp add: mejor_o_igual_def)

lemma ordenadas:
  assumes "i < j" and "j < length fs"
  shows "mejor_o_igual (sort_key clave_orden fs ! i) (sort_key clave_orden fs ! j)"
proof -
  have s: "sorted (map clave_orden (sort_key clave_orden fs))" by (rule sorted_sort_key)
  have l: "length (sort_key clave_orden fs) = length fs" by simp
  from assms l have "map clave_orden (sort_key clave_orden fs) ! i
        \<le> map clave_orden (sort_key clave_orden fs) ! j"
    using s by (intro sorted_nth_mono) simp_all
  then show ?thesis using assms l by (simp add: clave_orden_le)
qed

text \<open>
  C5. For every non-empty list of teams (with statistics the row constructor accepts) the
  table is generated and has one row per team; the rows carry, team by team, the name,
  the points, the goal difference and the goals for of the teams' statistics of the
  period asked for (as multisets: the table is a rearrangement of the teams, nothing
  added, dropped or altered); it is sorted by points descending, then goal difference
  descending, then goals for descending, then name ascending; the row at index k has
  position k + 1, so the positions are 1..n; and of two rows with equal points, goal
  difference and goals for, the one with the lexicographically earlier name has the
  smaller position.
\<close>

theorem clasificacion_ordenada:
  assumes "equipos \<noteq> []"
      and "list_all (\<lambda>eq. stats_en_rango (obtener_stats eq tt)) equipos"
  shows "\<exists>filas. generar_clasificacion equipos tt = Inr filas
           \<and> length filas = length equipos
           \<and> mset (map (\<lambda>f. (equipo f, pts f, dif f, gf f)) filas)
               = mset (map (\<lambda>eq. (nombre eq, puntos (obtener_stats eq tt),
                                   diferencia_goles (obtener_stats eq tt),
                                   goles_favor (obtener_stats eq tt))) equipos)
           \<and> (\<forall>k. k < length filas \<longrightarrow> posicion (filas ! k) = int k + 1)
           \<and> (\<forall>i j. i < j \<and> j < length filas \<longrightarrow> mejor_o_igual (filas ! i) (filas ! j))
           \<and> (\<forall>i j. i < length filas \<and> j < length filas
                  \<and> pts (filas ! i) = pts (filas ! j) \<and> dif (filas ! i) = dif (filas ! j)
                  \<and> gf (filas ! i) = gf (filas ! j)
                  \<and> equipo (filas ! i) < equipo (filas ! j)
                \<longrightarrow> posicion (filas ! i) < posicion (filas ! j))"
proof -
  from crear_filas_ok [OF assms(2)] obtain fs where
    1: "crear_filas equipos tt = Inr fs"
    and 2: "map (\<lambda>f. (equipo f, pts f, dif f, gf f)) fs
          = map (\<lambda>eq. (nombre eq, puntos (obtener_stats eq tt),
                        diferencia_goles (obtener_stats eq tt),
                        goles_favor (obtener_stats eq tt))) equipos" by blast
  define r where "r = asignar_posiciones 1 (sort_key clave_orden fs)"
  have g: "generar_clasificacion equipos tt = Inr r"
    using assms(1) 1 by (simp add: generar_clasificacion_def r_def)
  have lf: "length fs = length equipos"
    using arg_cong [OF 2, of length] by simp
  have len: "length r = length equipos" by (simp add: r_def lf)
  have nth: "\<And>k. k < length r \<Longrightarrow> r ! k = (sort_key clave_orden fs ! k)\<lparr>posicion := 1 + int k\<rparr>"
    unfolding r_def by (simp add: asignar_posiciones_nth)
  have datos: "mset (map (\<lambda>f. (equipo f, pts f, dif f, gf f)) r)
               = mset (map (\<lambda>eq. (nombre eq, puntos (obtener_stats eq tt),
                                   diferencia_goles (obtener_stats eq tt),
                                   goles_favor (obtener_stats eq tt))) equipos)"
  proof -
    have "map (\<lambda>f. (equipo f, pts f, dif f, gf f)) r
          = map (\<lambda>f. (equipo f, pts f, dif f, gf f)) (sort_key clave_orden fs)"
      by (simp add: r_def)
    then have "mset (map (\<lambda>f. (equipo f, pts f, dif f, gf f)) r)
          = image_mset (\<lambda>f. (equipo f, pts f, dif f, gf f)) (mset (sort_key clave_orden fs))"
      by simp
    also have "\<dots> = image_mset (\<lambda>f. (equipo f, pts f, dif f, gf f)) (mset fs)" by simp
    also have "\<dots> = mset (map (\<lambda>f. (equipo f, pts f, dif f, gf f)) fs)" by simp
    finally show ?thesis using 2 by simp
  qed
  have pos: "\<forall>k. k < length r \<longrightarrow> posicion (r ! k) = int k + 1"
    using nth by simp
  have ord: "\<forall>i j. i < j \<and> j < length r \<longrightarrow> mejor_o_igual (r ! i) (r ! j)"
  proof (intro allI impI)
    fix i j assume h: "i < j \<and> j < length r"
    then have "mejor_o_igual (sort_key clave_orden fs ! i) (sort_key clave_orden fs ! j)"
      using len lf by (intro ordenadas) simp_all
    then show "mejor_o_igual (r ! i) (r ! j)" using h nth by simp
  qed
  have des: "\<forall>i j. i < length r \<and> j < length r
                  \<and> pts (r ! i) = pts (r ! j) \<and> dif (r ! i) = dif (r ! j)
                  \<and> gf (r ! i) = gf (r ! j)
                  \<and> equipo (r ! i) < equipo (r ! j)
                \<longrightarrow> posicion (r ! i) < posicion (r ! j)"
  proof (intro allI impI)
    fix i j assume h: "i < length r \<and> j < length r
                  \<and> pts (r ! i) = pts (r ! j) \<and> dif (r ! i) = dif (r ! j)
                  \<and> gf (r ! i) = gf (r ! j)
                  \<and> equipo (r ! i) < equipo (r ! j)"
    have "i < j"
    proof (rule ccontr)
      assume "\<not> i < j"
      then have "j < i \<or> j = i" by auto
      then show False
      proof
        assume "j < i"
        with h ord have "mejor_o_igual (r ! j) (r ! i)" by simp
        with h have "equipo (r ! j) \<le> equipo (r ! i)" by (simp add: mejor_o_igual_def)
        moreover from h have "equipo (r ! i) < equipo (r ! j)" by simp
        ultimately show False by (simp add: not_less [symmetric])
      next
        assume "j = i"
        with h show False by simp
      qed
    qed
    then show "posicion (r ! i) < posicion (r ! j)" using h pos by simp
  qed
  show ?thesis by (rule exI [of _ r]) (intro conjI g len datos pos ord des)
qed

lemma ejemplos_en_rango: "0 \<le> p \<Longrightarrow> 0 \<le> g \<Longrightarrow>
   stats_en_rango (stats_por_defecto\<lparr>puntos := p, diferencia_goles := d, goles_favor := g\<rparr>)"
  by (simp add: stats_en_rango_def stats_por_defecto_def)

theorem clasificacion_ordenada_witness:
  "equipos_ejemplo \<noteq> []
   \<and> list_all (\<lambda>eq. stats_en_rango (obtener_stats eq COMPLETO)) equipos_ejemplo
   \<and> (\<exists>filas. generar_clasificacion equipos_ejemplo COMPLETO = Inr filas
         \<and> map (\<lambda>f. (posicion f, equipo f, pts f, dif f, gf f)) filas
             = [(1, ''Zeta'', 12, - 1, 5), (2, ''Omega'', 10, 5, 0), (3, ''Delta'', 10, 2, 9),
                (4, ''Beta'', 10, 2, 7), (5, ''Gamma'', 10, 2, 7), (6, ''Alfa'', 10, 1, 20)]
         \<and> mejor_o_igual (filas ! 0) (filas ! 1) \<and> mejor_o_igual (filas ! 4) (filas ! 5))"
proof -
  have h1: "equipos_ejemplo \<noteq> []" by (simp add: equipos_ejemplo_def)
  have h2: "list_all (\<lambda>eq. stats_en_rango (obtener_stats eq COMPLETO)) equipos_ejemplo"
    by (simp add: equipos_ejemplo_def equipo_ejemplo_def ejemplos_en_rango)
  from clasificacion_ordenada [OF h1 h2] obtain filas where
    g: "generar_clasificacion equipos_ejemplo COMPLETO = Inr filas"
    and l: "length filas = length equipos_ejemplo"
    and o: "\<forall>i j. i < j \<and> j < length filas \<longrightarrow> mejor_o_igual (filas ! i) (filas ! j)"
    by blast
  have l6: "length filas = 6" using l by (simp add: equipos_ejemplo_def)
  have o1: "mejor_o_igual (filas ! 0) (filas ! 1)" using o l6 by simp
  have o2: "mejor_o_igual (filas ! 4) (filas ! 5)" using o l6 by simp
  have v: "map (\<lambda>f. (posicion f, equipo f, pts f, dif f, gf f)) filas
             = [(1, ''Zeta'', 12, - 1, 5), (2, ''Omega'', 10, 5, 0), (3, ''Delta'', 10, 2, 9),
                (4, ''Beta'', 10, 2, 7), (5, ''Gamma'', 10, 2, 7), (6, ''Alfa'', 10, 1, 20)]"
    using g [symmetric]
    by (simp add: generar_clasificacion_def equipos_ejemplo_def equipo_ejemplo_def
        crear_fila_def stats_en_rango_def Let_def clave_orden_def stats_por_defecto_def
        less_eq_prod_def less_prod_def)
  show ?thesis by (intro conjI exI [of _ filas] h1 h2 g v o1 o2)
qed


section \<open>Aggregate accuracy and the league filter\<close>

lemma redondear_entero_of_int [simp]: "redondear_entero (of_int k) = k"
  by (simp add: redondear_entero_def)

lemma round2_of_int: "round2 (of_int k) = of_int k"
proof -
  have "of_int k * 100 = (of_int (k * 100) :: real)" by simp
  then have "redondear_entero (of_int k * 100) = k * 100"
    by (simp only: redondear_entero_of_int)
  then show ?thesis by (simp add: round2_def)
qed

lemma round2_50: "round2 50 = 50"
  using round2_of_int [of 50] by simp

lemma round2_100: "round2 100 = 100"
  using round2_of_int [of 100] by simp

lemma liga_ignorada:
  "calcular_efectividad coleccion liga fecha_inicio fecha_fin
     = calcular_efectividad coleccion None fecha_inicio fecha_fin"
  by (simp add: calcular_efectividad_def)


text \<open>
  C8. The claim holds of what the docstring promises (\<open>liga_id\<close>: filter by league) and
  fails on the code, which never puts the league into its query. With one winning
  validation of a Spanish-league forecast and one losing validation of an English-league
  forecast in the store, asking for the Spanish league counts both (2 validations, 50%)
  where the filtered aggregate counts one (1 validation, 100%).
\<close>

theorem efectividad_ignora_liga:
  "liga_de_validacion pronosticos_dos_ligas validacion_espana_ejemplo = Some ''SPAIN_LA_LIGA''
   \<and> liga_de_validacion pronosticos_dos_ligas validacion_inglaterra_ejemplo
       = Some ''ENGLAND_PREMIER_LEAGUE''
   \<and> calcular_efectividad [validacion_espana_ejemplo, validacion_inglaterra_ejemplo]
        (Some ''SPAIN_LA_LIGA'') None None
       = Efectividad 2
           \<lparr>aciertos = 1, accuracy = 50\<rparr> \<lparr>aciertos = 1, accuracy = 50\<rparr>
           \<lparr>aciertos = 1, accuracy = 50\<rparr>
           \<lparr>aciertos = 1, accuracy = 50\<rparr> \<lparr>aciertos = 1, accuracy = 50\<rparr>
           \<lparr>aciertos = 1, accuracy = 50\<rparr> \<lparr>aciertos = 1, accuracy = 50\<rparr>
   \<and> efectividad_filtrada_spec pronosticos_dos_ligas
        [validacion_espana_ejemplo, validacion_inglaterra_ejemplo]
        (Some ''SPAIN_LA_LIGA'') None None
       = Efectividad 1
           \<lparr>aciertos = 1, accuracy = 100\<rparr> \<lparr>aciertos = 1, accuracy = 100\<rparr>
           \<lparr>aciertos = 1, accuracy = 100\<rparr>
           \<lparr>aciertos = 1, accuracy = 100\<rparr> \<lparr>aciertos = 1, accuracy = 100\<rparr>
           \<lparr>aciertos = 1, accuracy = 100\<rparr> \<lparr>aciertos = 1, accuracy = 100\<rparr>"
  by (simp add: liga_de_validacion_def pronosticos_dos_ligas_def pronostico_ejemplo_def
      validacion_espana_ejemplo_def validacion_inglaterra_ejemplo_def
      periodo_gana_ejemplo_def periodo_pierde_ejemplo_def
      calcular_efectividad_def efectividad_filtrada_spec_def consulta_validaciones_def
      contar_def gana_doble_def gana_ambos_def mercado_def round2_50 round2_100 Let_def)


end
